theory Spec2Isabelle
  imports Complex_Main
begin

section \<open>Errors and tensors\<close>

text \<open>
  The program is PyTorch code. Floating-point numbers are modelled as real numbers, a
  tensor as nested lists together with its shape (so that a tensor with an empty axis
  still has its other dimensions, as \<open>input.shape\<close> returns them), and every exception
  that a call of the source can raise as a value of type \<open>error\<close>:
  \<^item> \<open>IndexError\<close>: an embedding index out of range, or \<open>[:, -1, :]\<close> on an empty axis;
  \<^item> \<open>ShapeError\<close>: the RuntimeError of a shape mismatch (matrix product, broadcast, view);
  \<^item> \<open>ZeroDivisionError\<close>: Python's \<open>0 ** -0.5\<close> and \<open>n // 0\<close>;
  \<^item> \<open>NotScalar\<close>: \<open>.item()\<close> on a tensor that does not hold exactly one element;
  \<^item> \<open>TypeError\<close>: arithmetic on \<open>None\<close>;
  \<^item> \<open>TargetError\<close>: a class index out of bounds in \<open>F.cross_entropy\<close>;
  \<^item> \<open>EmptyCat\<close>: \<open>torch.cat\<close> of an empty list, \<open>torch.multinomial\<close> without categories.
\<close>

datatype error =
  IndexError | ShapeError | ZeroDivisionError | NotScalar | TypeError | TargetError | EmptyCat

definition bindE :: "error + 'a \<Rightarrow> ('a \<Rightarrow> error + 'b) \<Rightarrow> error + 'b" where
  "bindE r f = (case r of Inl e \<Rightarrow> Inl e | Inr v \<Rightarrow> f v)"

fun mapE :: "('a \<Rightarrow> error + 'b) \<Rightarrow> 'a list \<Rightarrow> error + 'b list" where
  "mapE f [] = Inr []"
| "mapE f (x # xs) = bindE (f x) (\<lambda>y. bindE (mapE f xs) (\<lambda>ys. Inr (y # ys)))"

fun foldE :: "('b \<Rightarrow> 'a \<Rightarrow> error + 'a) \<Rightarrow> 'b list \<Rightarrow> 'a \<Rightarrow> error + 'a" where
  "foldE f [] a = Inr a"
| "foldE f (x # xs) a = bindE (f x a) (foldE f xs)"

text \<open>A score after \<open>masked_fill(..., float('-inf'))\<close> is a real number or minus infinity.\<close>

datatype xreal = MInf | Fin real

record 'a tensor2 =
  nrows :: nat
  ncols :: nat
  cells :: "'a list list"

record 'a tensor3 =
  nbatch :: nat
  nseq :: nat
  nfeat :: nat
  vals :: "'a list list list"

definition wf2 :: "'a tensor2 \<Rightarrow> bool" where
  "wf2 t \<longleftrightarrow> length (cells t) = nrows t \<and> (\<forall>r \<in> set (cells t). length r = ncols t)"

definition wf3 :: "'a tensor3 \<Rightarrow> bool" where
  "wf3 t \<longleftrightarrow> length (vals t) = nbatch t \<and>
     (\<forall>m \<in> set (vals t). length m = nseq t \<and> (\<forall>v \<in> set m. length v = nfeat t))"

text \<open>A well-formed tensor of a given shape.\<close>

definition shaped2 :: "nat \<Rightarrow> nat \<Rightarrow> 'a tensor2 \<Rightarrow> bool" where
  "shaped2 n m t \<longleftrightarrow> wf2 t \<and> nrows t = n \<and> ncols t = m"

definition shaped3 :: "nat \<Rightarrow> nat \<Rightarrow> nat \<Rightarrow> 'a tensor3 \<Rightarrow> bool" where
  "shaped3 B T D x \<longleftrightarrow> wf3 x \<and> nbatch x = B \<and> nseq x = T \<and> nfeat x = D"

section \<open>The layers of \<open>torch.nn\<close> that the model uses\<close>

text \<open>
  \<open>nn.Linear\<close>, \<open>nn.Embedding\<close> and \<open>nn.LayerNorm\<close> are library classes. Each is a record of
  the sizes it was constructed with and of its parameters. The initial parameter values
  are random in the source; here a constructor reads them from a function \<open>rnd\<close> from
  paths to reals, and hands each sub-module its own part of it.
\<close>

definition sub :: "(nat list \<Rightarrow> real) \<Rightarrow> nat \<Rightarrow> nat list \<Rightarrow> real" where
  "sub rnd k = (\<lambda>p. rnd (k # p))"

record Linear =
  in_features :: nat
  out_features :: nat
  weight :: "real list list"
  bias :: "real list option"

definition Linear_init :: "nat \<Rightarrow> nat \<Rightarrow> bool \<Rightarrow> (nat list \<Rightarrow> real) \<Rightarrow> Linear" where
  "Linear_init n_in n_out with_bias rnd =
     \<lparr>in_features = n_in, out_features = n_out,
      weight = map (\<lambda>out. map (\<lambda>i. rnd [0, out, i]) [0..<n_in]) [0..<n_out],
      bias = (if with_bias then Some (map (\<lambda>out. rnd [1, out]) [0..<n_out]) else None)\<rparr>"

record Embedding =
  num_embeddings :: nat
  embedding_dim :: nat
  table :: "real list list"

definition Embedding_init :: "nat \<Rightarrow> nat \<Rightarrow> (nat list \<Rightarrow> real) \<Rightarrow> Embedding" where
  "Embedding_init n d rnd =
     \<lparr>num_embeddings = n, embedding_dim = d,
      table = map (\<lambda>k. map (\<lambda>i. rnd [k, i]) [0..<d]) [0..<n]\<rparr>"

record LayerNorm =
  normalized_shape :: nat
  ln_weight :: "real list"
  ln_bias :: "real list"
  eps :: real

definition LayerNorm_init :: "nat \<Rightarrow> LayerNorm" where
  "LayerNorm_init d =
     \<lparr>normalized_shape = d, ln_weight = replicate d 1, ln_bias = replicate d 0,
      eps = 1 / 100000\<rparr>"

definition torch_ones :: "nat \<Rightarrow> nat \<Rightarrow> real tensor2" where
  "torch_ones n m = \<lparr>nrows = n, ncols = m, cells = replicate n (replicate m 1)\<rparr>"

definition torch_tril :: "real tensor2 \<Rightarrow> real tensor2" where
  "torch_tril t =
     t\<lparr>cells := map (\<lambda>(i, r). map (\<lambda>(j, x). if j \<le> i then x else 0) (enumerate 0 r))
                    (enumerate 0 (cells t))\<rparr>"

section \<open>The modules of \<open>model.py\<close> and their constructors\<close>

record AttentionHead =
  project_to_key :: Linear
  project_to_query :: Linear
  project_to_value :: Linear
  tril :: "real tensor2"

definition AttentionHead_init ::
  "nat \<Rightarrow> nat \<Rightarrow> nat \<Rightarrow> (nat list \<Rightarrow> real) \<Rightarrow> AttentionHead" where
  "AttentionHead_init dim_embed head_size max_len rnd =
     \<lparr>project_to_key = Linear_init dim_embed head_size False (sub rnd 0),
      project_to_query = Linear_init dim_embed head_size False (sub rnd 1),
      project_to_value = Linear_init dim_embed head_size False (sub rnd 2),
      tril = torch_tril (torch_ones max_len max_len)\<rparr>"

record MultiHeadAttention =
  heads :: "AttentionHead list"
  mha_project :: Linear

definition MultiHeadAttention_init ::
  "nat \<Rightarrow> nat \<Rightarrow> nat \<Rightarrow> nat \<Rightarrow> (nat list \<Rightarrow> real) \<Rightarrow> MultiHeadAttention" where
  "MultiHeadAttention_init dim_embed num_heads head_size max_len rnd =
     \<lparr>heads = map (\<lambda>k. AttentionHead_init dim_embed head_size max_len (sub rnd k))
                  [0..<num_heads],
      mha_project = Linear_init (head_size * num_heads) dim_embed True (sub rnd num_heads)\<rparr>"

text \<open>\<open>nn.Sequential(Linear, ReLU, Linear)\<close>: the two linear layers; ReLU has no parameter.\<close>

record FeedForward =
  ff_up :: Linear
  ff_down :: Linear

definition FeedForward_init :: "nat \<Rightarrow> (nat list \<Rightarrow> real) \<Rightarrow> FeedForward" where
  "FeedForward_init dim_embed rnd =
     \<lparr>ff_up = Linear_init dim_embed (4 * dim_embed) True (sub rnd 0),
      ff_down = Linear_init (4 * dim_embed) dim_embed True (sub rnd 1)\<rparr>"

record TranformerBlock =
  multi_head_attention :: MultiHeadAttention
  feed_forward :: FeedForward
  layer_norm1 :: LayerNorm
  layer_norm2 :: LayerNorm

text \<open>
  \<open>head_size = dim_embed // num_heads\<close> is Python's floor division: it raises
  ZeroDivisionError for \<open>num_heads = 0\<close> and nothing else; the constructor has no other check.
\<close>

definition TranformerBlock_init ::
  "nat \<Rightarrow> nat \<Rightarrow> nat \<Rightarrow> (nat list \<Rightarrow> real) \<Rightarrow> error + TranformerBlock" where
  "TranformerBlock_init dim_embed num_heads max_len rnd =
     (if num_heads = 0 then Inl ZeroDivisionError
      else let head_size = dim_embed div num_heads in
        Inr \<lparr>multi_head_attention =
               MultiHeadAttention_init dim_embed num_heads head_size max_len (sub rnd 0),
             feed_forward = FeedForward_init dim_embed (sub rnd 1),
             layer_norm1 = LayerNorm_init dim_embed,
             layer_norm2 = LayerNorm_init dim_embed\<rparr>)"

record TutorialLLM =
  max_length :: nat
  device :: string
  token_embedding_table :: Embedding
  position_embedding_table :: Embedding
  transformer_blocks :: "TranformerBlock list"
  layer_norm_final :: LayerNorm
  llm_project :: Linear

definition TutorialLLM_init ::
  "nat \<Rightarrow> nat \<Rightarrow> nat \<Rightarrow> nat \<Rightarrow> nat \<Rightarrow> string \<Rightarrow> (nat list \<Rightarrow> real) \<Rightarrow> error + TutorialLLM" where
  "TutorialLLM_init vocabulary_size dim_embed max_len num_head num_layer dev rnd =
     bindE (mapE (\<lambda>k. TranformerBlock_init dim_embed num_head max_len (sub rnd (3 + k)))
              [0..<num_layer])
       (\<lambda>blocks. Inr
          \<lparr>max_length = max_len, device = dev,
           token_embedding_table = Embedding_init vocabulary_size dim_embed (sub rnd 0),
           position_embedding_table = Embedding_init max_len dim_embed (sub rnd 1),
           transformer_blocks = blocks,
           layer_norm_final = LayerNorm_init dim_embed,
           llm_project = Linear_init dim_embed vocabulary_size True (sub rnd 2)\<rparr>)"

text \<open>
  \<open>DpoWrapper.__init__\<close> stores its arguments and a deep copy of the model. It has no
  check and no call that can raise. A deep copy of a value is the value.
\<close>

record DpoWrapper =
  aligned_model :: TutorialLLM
  beta :: real
  positive_weight :: real
  negative_weight :: real
  reference_model :: TutorialLLM

definition DpoWrapper_init :: "TutorialLLM \<Rightarrow> real \<Rightarrow> real \<Rightarrow> DpoWrapper" where
  "DpoWrapper_init model b pw =
     \<lparr>aligned_model = model, beta = b, positive_weight = pw, negative_weight = 1 - pw,
      reference_model = model\<rparr>"

text \<open>Initial parameter values used for concrete configurations: all zero.\<close>

definition zero_rnd :: "nat list \<Rightarrow> real" where
  "zero_rnd p = 0"

section \<open>Tensor operations\<close>

text \<open>
  The operations of the tensor library, from their documented meaning. An operation
  checks the shapes of its arguments where the library does and fails with \<open>ShapeError\<close>.
  Two places are narrower than the library: adding tensors and the batched matrix product
  want equal sizes and do not stretch an axis of size one. In \<open>model.py\<close> their operands
  always come from the same input and from tables of the same width, so the sizes are
  equal. The mean of no numbers is NaN in the library and \<open>0 / 0 = 0\<close> here;
  the same holds for the softmax of a row that is \<open>- inf\<close> throughout.
\<close>

definition dot :: "real list \<Rightarrow> real list \<Rightarrow> real" where
  "dot xs ys = sum_list (map2 (*) xs ys)"

definition mean :: "real list \<Rightarrow> real" where
  "mean xs = sum_list xs / real (length xs)"

definition affine :: "Linear \<Rightarrow> real list \<Rightarrow> real list" where
  "affine l v =
     (case bias l of
        None \<Rightarrow> map (\<lambda>w. dot w v) (weight l)
      | Some b \<Rightarrow> map2 (\<lambda>w c. dot w v + c) (weight l) b)"

definition Linear_forward :: "Linear \<Rightarrow> real tensor3 \<Rightarrow> error + real tensor3" where
  "Linear_forward l x =
     (if nfeat x \<noteq> in_features l then Inl ShapeError
      else Inr \<lparr>nbatch = nbatch x, nseq = nseq x, nfeat = out_features l,
                vals = map (map (affine l)) (vals x)\<rparr>)"

definition lookup :: "Embedding \<Rightarrow> int \<Rightarrow> error + real list" where
  "lookup e i =
     (if 0 \<le> i \<and> i < int (num_embeddings e) then Inr (table e ! nat i)
      else Inl IndexError)"

definition Embedding_forward2 :: "Embedding \<Rightarrow> int tensor2 \<Rightarrow> error + real tensor3" where
  "Embedding_forward2 e ids =
     bindE (mapE (mapE (lookup e)) (cells ids))
       (\<lambda>v. Inr \<lparr>nbatch = nrows ids, nseq = ncols ids, nfeat = embedding_dim e, vals = v\<rparr>)"

definition Embedding_forward1 :: "Embedding \<Rightarrow> int list \<Rightarrow> error + real tensor2" where
  "Embedding_forward1 e ids =
     bindE (mapE (lookup e) ids)
       (\<lambda>v. Inr \<lparr>nrows = length ids, ncols = embedding_dim e, cells = v\<rparr>)"

definition torch_arange :: "nat \<Rightarrow> int list" where
  "torch_arange n = map int [0..<n]"

text \<open>\<open>(B, T, D) + (T, D)\<close>: the second operand is added to every batch element.\<close>

definition add_broadcast :: "real tensor3 \<Rightarrow> real tensor2 \<Rightarrow> error + real tensor3" where
  "add_broadcast x p =
     (if nseq x = nrows p \<and> nfeat x = ncols p
      then Inr (x\<lparr>vals := map (\<lambda>m. map2 (map2 (+)) m (cells p)) (vals x)\<rparr>)
      else Inl ShapeError)"

definition add3 :: "real tensor3 \<Rightarrow> real tensor3 \<Rightarrow> error + real tensor3" where
  "add3 x y =
     (if nbatch x = nbatch y \<and> nseq x = nseq y \<and> nfeat x = nfeat y
      then Inr (x\<lparr>vals := map2 (map2 (map2 (+))) (vals x) (vals y)\<rparr>)
      else Inl ShapeError)"

definition layer_norm_vec :: "LayerNorm \<Rightarrow> real list \<Rightarrow> real list" where
  "layer_norm_vec lnorm v =
     (let mu = mean v; var = mean (map (\<lambda>x. (x - mu)\<^sup>2) v)
      in map (\<lambda>(x, g, b). (x - mu) / sqrt (var + eps lnorm) * g + b)
           (zip v (zip (ln_weight lnorm) (ln_bias lnorm))))"

definition LayerNorm_forward :: "LayerNorm \<Rightarrow> real tensor3 \<Rightarrow> error + real tensor3" where
  "LayerNorm_forward lnorm x =
     (if nfeat x \<noteq> normalized_shape lnorm then Inl ShapeError
      else Inr (x\<lparr>vals := map (map (layer_norm_vec lnorm)) (vals x)\<rparr>))"

definition relu3 :: "real tensor3 \<Rightarrow> real tensor3" where
  "relu3 x = x\<lparr>vals := map (map (map (\<lambda>v. max 0 v))) (vals x)\<rparr>"

text \<open>\<open>x.transpose(-2, -1)\<close>: the last two axes exchanged.\<close>

definition transpose_last :: "real tensor3 \<Rightarrow> real tensor3" where
  "transpose_last x =
     \<lparr>nbatch = nbatch x, nseq = nfeat x, nfeat = nseq x,
      vals = map (\<lambda>m. map (\<lambda>j. map (\<lambda>r. r ! j) m) [0..<nfeat x]) (vals x)\<rparr>"

text \<open>\<open>a @ b\<close> on \<open>(B, n, k)\<close> and \<open>(B, k, p)\<close>: entry \<open>(i, j)\<close> is row \<open>i\<close> of \<open>a\<close> times column \<open>j\<close> of \<open>b\<close>.\<close>

definition matmul :: "real tensor3 \<Rightarrow> real tensor3 \<Rightarrow> error + real tensor3" where
  "matmul a b =
     (if nbatch a = nbatch b \<and> nfeat a = nseq b
      then Inr \<lparr>nbatch = nbatch a, nseq = nseq a, nfeat = nfeat b,
                vals = map2 (\<lambda>ma mb. map (\<lambda>row. map (\<lambda>j. dot row (map (\<lambda>r. r ! j) mb))
                                                   [0..<nfeat b]) ma)
                         (vals a) (vals b)\<rparr>
      else Inl ShapeError)"

text \<open>Python's \<open>n ** -0.5\<close> on the integer \<open>n\<close>: \<open>0 ** -0.5\<close> raises ZeroDivisionError.\<close>

definition pow_neg_half :: "nat \<Rightarrow> error + real" where
  "pow_neg_half n = (if n = 0 then Inl ZeroDivisionError else Inr (real n powr (- 1 / 2)))"

definition scale3 :: "real \<Rightarrow> real tensor3 \<Rightarrow> real tensor3" where
  "scale3 c x = x\<lparr>vals := map (map (map (\<lambda>v. v * c))) (vals x)\<rparr>"

text \<open>\<open>t[:n, :m]\<close> and \<open>t == 0\<close>.\<close>

definition slice2 :: "nat \<Rightarrow> nat \<Rightarrow> 'a tensor2 \<Rightarrow> 'a tensor2" where
  "slice2 n m t =
     \<lparr>nrows = min n (nrows t), ncols = min m (ncols t), cells = map (take m) (take n (cells t))\<rparr>"

definition eq_zero :: "real tensor2 \<Rightarrow> bool tensor2" where
  "eq_zero t = \<lparr>nrows = nrows t, ncols = ncols t, cells = map (map (\<lambda>x. x = 0)) (cells t)\<rparr>"

text \<open>
  \<open>x.masked_fill(mask, float('-inf'))\<close>: the mask \<open>(r, c)\<close> is broadcast to the last two
  axes of \<open>x\<close>; an axis of the mask of size one is stretched, any other mismatch is an error.
\<close>

definition expand :: "nat \<Rightarrow> 'a list \<Rightarrow> 'a list" where
  "expand n xs = (if length xs = n then xs else case xs of [v] \<Rightarrow> replicate n v | _ \<Rightarrow> xs)"

definition masked_fill :: "real tensor3 \<Rightarrow> bool tensor2 \<Rightarrow> error + xreal tensor3" where
  "masked_fill x msk =
     (if (nrows msk = nseq x \<or> nrows msk = 1) \<and> (ncols msk = nfeat x \<or> ncols msk = 1)
      then Inr \<lparr>nbatch = nbatch x, nseq = nseq x, nfeat = nfeat x,
                vals = map (\<lambda>m. map2 (\<lambda>row mrow. map2 (\<lambda>v b. if b then MInf else Fin v) row
                                                     (expand (nfeat x) mrow))
                                  m (expand (nseq x) (cells msk)))
                         (vals x)\<rparr>
      else Inl ShapeError)"

definition xexp :: "xreal \<Rightarrow> real" where
  "xexp s = (case s of MInf \<Rightarrow> 0 | Fin x \<Rightarrow> exp x)"

definition softmax :: "xreal list \<Rightarrow> real list" where
  "softmax xs = map (\<lambda>s. xexp s / sum_list (map xexp xs)) xs"

definition softmax3 :: "xreal tensor3 \<Rightarrow> real tensor3" where
  "softmax3 x =
     \<lparr>nbatch = nbatch x, nseq = nseq x, nfeat = nfeat x, vals = map (map softmax) (vals x)\<rparr>"

text \<open>\<open>torch.cat(ts, dim=-1)\<close>: the list must not be empty, and the other axes must agree.\<close>

fun cat_last :: "real tensor3 list \<Rightarrow> error + real tensor3" where
  "cat_last [] = Inl EmptyCat"
| "cat_last [x] = Inr x"
| "cat_last (x # y # ys) =
     bindE (cat_last (y # ys))
       (\<lambda>r. if nbatch x = nbatch r \<and> nseq x = nseq r
            then Inr \<lparr>nbatch = nbatch x, nseq = nseq x, nfeat = nfeat x + nfeat r,
                      vals = map2 (map2 (@)) (vals x) (vals r)\<rparr>
            else Inl ShapeError)"

section \<open>The forward passes\<close>

text \<open>
  \<open>AttentionHead.forward\<close> in three parts, in the order of the source: the projections
  and the scaled scores (lines 52 to 60), the mask and the softmax (lines 63 to 65), and
  the product with the values (line 67).
\<close>

definition scaled_scores ::
  "AttentionHead \<Rightarrow> real tensor3 \<Rightarrow> error + real tensor3 \<times> real tensor3" where
  "scaled_scores h input =
     (let dim_embed = nfeat input in
      bindE (Linear_forward (project_to_key h) input) (\<lambda>key.
      bindE (Linear_forward (project_to_query h) input) (\<lambda>query.
      bindE (Linear_forward (project_to_value h) input) (\<lambda>value.
      bindE (matmul query (transpose_last key)) (\<lambda>weights.
      bindE (pow_neg_half dim_embed) (\<lambda>c.
      Inr (scale3 c weights, value)))))))"

definition attention_weights ::
  "AttentionHead \<Rightarrow> real tensor3 \<Rightarrow> error + real tensor3 \<times> real tensor3" where
  "attention_weights h input =
     (let T = nseq input in
      bindE (scaled_scores h input) (\<lambda>(weights, value).
      bindE (masked_fill weights (eq_zero (slice2 T T (tril h)))) (\<lambda>weights.
      Inr (softmax3 weights, value))))"

definition AttentionHead_forward :: "AttentionHead \<Rightarrow> real tensor3 \<Rightarrow> error + real tensor3" where
  "AttentionHead_forward h input =
     bindE (attention_weights h input) (\<lambda>(weights, value). matmul weights value)"

definition MultiHeadAttention_forward ::
  "MultiHeadAttention \<Rightarrow> real tensor3 \<Rightarrow> error + real tensor3" where
  "MultiHeadAttention_forward m input =
     bindE (mapE (\<lambda>head. AttentionHead_forward head input) (heads m)) (\<lambda>outs.
     bindE (cat_last outs) (\<lambda>output.
     Linear_forward (mha_project m) output))"

definition FeedForward_forward :: "FeedForward \<Rightarrow> real tensor3 \<Rightarrow> error + real tensor3" where
  "FeedForward_forward f input =
     bindE (Linear_forward (ff_up f) input) (\<lambda>hidden.
     Linear_forward (ff_down f) (relu3 hidden))"

definition TranformerBlock_forward ::
  "TranformerBlock \<Rightarrow> real tensor3 \<Rightarrow> error + real tensor3" where
  "TranformerBlock_forward b input =
     bindE (LayerNorm_forward (layer_norm1 b) input) (\<lambda>normed1.
     bindE (MultiHeadAttention_forward (multi_head_attention b) normed1) (\<lambda>attended.
     bindE (add3 input attended) (\<lambda>output.
     bindE (LayerNorm_forward (layer_norm2 b) output) (\<lambda>normed2.
     bindE (FeedForward_forward (feed_forward b) normed2) (\<lambda>fed.
     add3 output fed)))))"

text \<open>
  \<open>F.cross_entropy(input, target, reduce=flag)\<close> of the library, with its defaults: the
  old keyword \<open>reduce\<close> selects the reduction \<open>'mean'\<close> for True and \<open>'none'\<close> for False; a
  target equal to \<open>ignore_index = -100\<close> contributes the loss zero and is left out of the
  mean; any other target outside \<open>[0, C)\<close> is an error. The loss of one example is the
  negative log of the softmax probability of its target.
\<close>

datatype tensor01 = Scalar real | Vector "real list"

definition ignore_index :: int where
  "ignore_index = - 100"

definition nll :: "real list \<Rightarrow> int \<Rightarrow> real" where
  "nll x l = ln (sum_list (map exp x)) - x ! nat l"

definition example_loss :: "nat \<Rightarrow> real list \<Rightarrow> int \<Rightarrow> error + real" where
  "example_loss C x l =
     (if l = ignore_index then Inr 0
      else if 0 \<le> l \<and> l < int C then Inr (nll x l)
      else Inl TargetError)"

definition cross_entropy :: "real tensor2 \<Rightarrow> int list \<Rightarrow> bool \<Rightarrow> error + tensor01" where
  "cross_entropy input target reduce =
     (if nrows input \<noteq> length target then Inl ShapeError
      else bindE (mapE (\<lambda>(x, l). example_loss (ncols input) x l) (zip (cells input) target))
        (\<lambda>losses.
           if reduce
           then Inr (Scalar (sum_list losses /
                       real (length (filter (\<lambda>l. l \<noteq> ignore_index) target))))
           else Inr (Vector losses)))"

text \<open>\<open>x.view(B * T, V)\<close> of a contiguous tensor, and \<open>labels.view(n)\<close>, which needs \<open>n\<close> elements.\<close>

definition view2 :: "real tensor3 \<Rightarrow> real tensor2" where
  "view2 x = \<lparr>nrows = nbatch x * nseq x, ncols = nfeat x, cells = concat (vals x)\<rparr>"

definition view1 :: "int tensor2 \<Rightarrow> nat \<Rightarrow> error + int list" where
  "view1 t n = (if nrows t * ncols t = n then Inr (concat (cells t)) else Inl ShapeError)"

text \<open>
  \<open>TutorialLLM.forward\<close>: the logits (lines 251 to 262), then the loss (lines 264 to 275).
  With labels the variable \<open>logits\<close> is reassigned to its flattened view before it is
  returned, so the first component of the result has two axes or three.
\<close>

datatype logits_t = Logits3 "real tensor3" | Logits2 "real tensor2"

definition forward_logits :: "TutorialLLM \<Rightarrow> int tensor2 \<Rightarrow> error + real tensor3" where
  "forward_logits m token_ids =
     (let T = ncols token_ids in
      bindE (Embedding_forward2 (token_embedding_table m) token_ids) (\<lambda>token_embedding.
      bindE (Embedding_forward1 (position_embedding_table m) (torch_arange T))
        (\<lambda>position_embedding.
      bindE (add_broadcast token_embedding position_embedding) (\<lambda>embedding.
      bindE (foldE TranformerBlock_forward (transformer_blocks m) embedding) (\<lambda>embedding.
      bindE (LayerNorm_forward (layer_norm_final m) embedding) (\<lambda>embedding.
      Linear_forward (llm_project m) embedding))))))"

definition TutorialLLM_forward ::
  "TutorialLLM \<Rightarrow> int tensor2 \<Rightarrow> int tensor2 option \<Rightarrow> bool
     \<Rightarrow> error + logits_t \<times> tensor01 option" where
  "TutorialLLM_forward m token_ids labels reduce_loss =
     bindE (forward_logits m token_ids) (\<lambda>logits.
       case labels of
         None \<Rightarrow> Inr (Logits3 logits, None)
       | Some labels \<Rightarrow>
           (let B = nbatch logits; T = nseq logits; vocabulary_size = nfeat logits;
                logits = view2 logits
            in bindE (view1 labels (B * T)) (\<lambda>labels.
               bindE (cross_entropy logits labels reduce_loss) (\<lambda>loss.
               Inr (Logits2 logits, Some loss)))))"

text \<open>\<open>logits.shape\<close> of the returned logits, and the number of elements of a loss tensor.\<close>

definition logits_shape :: "logits_t \<Rightarrow> nat list" where
  "logits_shape logits =
     (case logits of
        Logits3 x \<Rightarrow> [nbatch x, nseq x, nfeat x]
      | Logits2 x \<Rightarrow> [nrows x, ncols x])"

definition numel :: "tensor01 \<Rightarrow> nat" where
  "numel a = (case a of Scalar x \<Rightarrow> 1 | Vector xs \<Rightarrow> length xs)"

section \<open>Generation\<close>

text \<open>
  \<open>token_ids[:, -n:]\<close>: the last \<open>n\<close> columns; for \<open>n = 0\<close> Python reads \<open>-0\<close> as \<open>0\<close> and the
  slice is the whole tensor.
\<close>

definition slice_last_cols :: "nat \<Rightarrow> 'a tensor2 \<Rightarrow> 'a tensor2" where
  "slice_last_cols n t =
     (if n = 0 then t
      else \<lparr>nrows = nrows t, ncols = min n (ncols t),
            cells = map (\<lambda>r. drop (length r - n) r) (cells t)\<rparr>)"

text \<open>\<open>logits[:, -1, :]\<close>: three indices, and the middle axis must not be empty.\<close>

definition select_last :: "logits_t \<Rightarrow> error + real tensor2" where
  "select_last logits =
     (case logits of
        Logits2 x \<Rightarrow> Inl IndexError
      | Logits3 x \<Rightarrow>
          if nseq x = 0 then Inl IndexError
          else Inr \<lparr>nrows = nbatch x, ncols = nfeat x, cells = map last (vals x)\<rparr>)"

definition softmax2 :: "real tensor2 \<Rightarrow> real tensor2" where
  "softmax2 x = x\<lparr>cells := map (\<lambda>r. softmax (map Fin r)) (cells x)\<rparr>"

text \<open>
  \<open>torch.multinomial(probs, num_samples=1)\<close> draws one category for each row. The random
  choice is a parameter: \<open>draw b p\<close> is the category drawn for row \<open>b\<close> with probabilities \<open>p\<close>.
  A generator is valid when it draws a category that exists.
\<close>

definition multinomial :: "(nat \<Rightarrow> real list \<Rightarrow> nat) \<Rightarrow> real tensor2 \<Rightarrow> error + int tensor2" where
  "multinomial draw probs =
     (if ncols probs = 0 then Inl EmptyCat
      else Inr \<lparr>nrows = nrows probs, ncols = 1,
                cells = map (\<lambda>(b, p). [int (draw b p)]) (enumerate 0 (cells probs))\<rparr>)"

definition valid_rng :: "(nat \<Rightarrow> nat \<Rightarrow> real list \<Rightarrow> nat) \<Rightarrow> bool" where
  "valid_rng rng \<longleftrightarrow> (\<forall>k b p. p \<noteq> [] \<longrightarrow> rng k b p < length p)"

text \<open>\<open>torch.cat((a, b), dim=1)\<close> and \<open>t.item()\<close>.\<close>

definition cat_cols :: "'a tensor2 \<Rightarrow> 'a tensor2 \<Rightarrow> error + 'a tensor2" where
  "cat_cols a b =
     (if nrows a = nrows b
      then Inr \<lparr>nrows = nrows a, ncols = ncols a + ncols b, cells = map2 (@) (cells a) (cells b)\<rparr>
      else Inl ShapeError)"

definition item :: "'a tensor2 \<Rightarrow> error + 'a" where
  "item t = (case concat (cells t) of [v] \<Rightarrow> Inr v | _ \<Rightarrow> Inl NotScalar)"

text \<open>A prompt of one sequence, as \<open>run.py\<close> builds it: \<open>torch.tensor(row).unsqueeze(0)\<close>.\<close>

definition unsqueeze0 :: "'a list \<Rightarrow> 'a tensor2" where
  "unsqueeze0 row = \<lparr>nrows = 1, ncols = length row, cells = [row]\<rparr>"

text \<open>
  \<open>TutorialLLM.generate\<close>: the loop \<open>for _ in range(max_new_tokens)\<close> as a recursion on the
  number of rounds left; \<open>k\<close> counts the rounds done and selects the random draw.
\<close>

fun generate_loop ::
  "TutorialLLM \<Rightarrow> (nat \<Rightarrow> nat \<Rightarrow> real list \<Rightarrow> nat) \<Rightarrow> nat \<Rightarrow> int tensor2 \<Rightarrow> nat
     \<Rightarrow> error + int tensor2" where
  "generate_loop m rng k token_ids 0 = Inr token_ids"
| "generate_loop m rng k token_ids (Suc n) =
     (let token_ids_available = slice_last_cols (max_length m) token_ids in
      bindE (TutorialLLM_forward m token_ids_available None True) (\<lambda>(logits, _).
      bindE (select_last logits) (\<lambda>logits.
      let probs = softmax2 logits in
      bindE (multinomial (rng k) probs) (\<lambda>idx_next.
      bindE (cat_cols token_ids idx_next) (\<lambda>token_ids.
      bindE (item idx_next) (\<lambda>v.
      if v = 0 then Inr token_ids else generate_loop m rng (Suc k) token_ids n))))))"

definition generate ::
  "TutorialLLM \<Rightarrow> (nat \<Rightarrow> nat \<Rightarrow> real list \<Rightarrow> nat) \<Rightarrow> int tensor2 \<Rightarrow> nat \<Rightarrow> error + int tensor2" where
  "generate m rng token_ids max_new_tokens = generate_loop m rng 0 token_ids max_new_tokens"

section \<open>The DPO loss\<close>

text \<open>
  The losses are tensors with no axis or one. Arithmetic on two of them broadcasts: a
  scalar, or a vector of one element, is stretched to the other operand; vectors of
  different lengths do not combine. \<open>None\<close> in place of a tensor is a TypeError.
\<close>

definition broadcast2 :: "(real \<Rightarrow> real \<Rightarrow> real) \<Rightarrow> tensor01 \<Rightarrow> tensor01 \<Rightarrow> error + tensor01" where
  "broadcast2 f a b =
     (case (a, b) of
        (Scalar x, Scalar y) \<Rightarrow> Inr (Scalar (f x y))
      | (Scalar x, Vector ys) \<Rightarrow> Inr (Vector (map (f x) ys))
      | (Vector xs, Scalar y) \<Rightarrow> Inr (Vector (map (\<lambda>x. f x y) xs))
      | (Vector xs, Vector ys) \<Rightarrow>
          if length xs = length ys then Inr (Vector (map2 f xs ys))
          else (case (xs, ys) of
                  ([x], _) \<Rightarrow> Inr (Vector (map (f x) ys))
                | (_, [y]) \<Rightarrow> Inr (Vector (map (\<lambda>x. f x y) xs))
                | _ \<Rightarrow> Inl ShapeError))"

definition t_sub :: "tensor01 option \<Rightarrow> tensor01 option \<Rightarrow> error + tensor01" where
  "t_sub a b = (case (a, b) of (Some x, Some y) \<Rightarrow> broadcast2 (-) x y | _ \<Rightarrow> Inl TypeError)"

definition t_add :: "tensor01 \<Rightarrow> tensor01 \<Rightarrow> error + tensor01" where
  "t_add a b = broadcast2 (+) a b"

definition t_map :: "(real \<Rightarrow> real) \<Rightarrow> tensor01 \<Rightarrow> tensor01" where
  "t_map f a = (case a of Scalar x \<Rightarrow> Scalar (f x) | Vector xs \<Rightarrow> Vector (map f xs))"

definition t_mean :: "tensor01 \<Rightarrow> real" where
  "t_mean a = (case a of Scalar x \<Rightarrow> x | Vector xs \<Rightarrow> mean xs)"

definition logsigmoid :: "real \<Rightarrow> real" where
  "logsigmoid x = ln (1 / (1 + exp (- x)))"

text \<open>
  \<open>DpoWrapper.forward\<close> in two parts, in the order of the source: the four forward passes
  (lines 350 to 355), and the loss that is derived from their four results (lines 357 to
  366).
\<close>

definition dpo_losses ::
  "DpoWrapper \<Rightarrow> int tensor2 \<Rightarrow> int tensor2 \<Rightarrow> int tensor2 \<Rightarrow> int tensor2
     \<Rightarrow> error + tensor01 option \<times> tensor01 option \<times> tensor01 option \<times> tensor01 option" where
  "dpo_losses w positive_token_ids positive_labels negative_token_ids negative_labels =
     bindE (TutorialLLM_forward (aligned_model w) positive_token_ids (Some positive_labels) False)
       (\<lambda>(_, positive_loss).
     bindE (TutorialLLM_forward (aligned_model w) negative_token_ids (Some negative_labels) False)
       (\<lambda>(_, negative_loss).
     bindE (TutorialLLM_forward (reference_model w) positive_token_ids (Some positive_labels) False)
       (\<lambda>(_, reference_positive_loss).
     bindE (TutorialLLM_forward (reference_model w) negative_token_ids (Some negative_labels) False)
       (\<lambda>(_, reference_negative_loss).
     Inr (positive_loss, negative_loss, reference_positive_loss, reference_negative_loss)))))"

definition dpo_objective ::
  "DpoWrapper \<Rightarrow> tensor01 option \<times> tensor01 option \<times> tensor01 option \<times> tensor01 option
     \<Rightarrow> error + real \<times> real" where
  "dpo_objective w losses =
     (case losses of
        (positive_loss, negative_loss, reference_positive_loss, reference_negative_loss) \<Rightarrow>
     bindE (t_sub reference_positive_loss positive_loss) (\<lambda>positive_reward.
     bindE (t_sub negative_loss reference_negative_loss) (\<lambda>negative_reward.
     bindE (t_add (t_map (\<lambda>r. positive_weight w * r) positive_reward)
                  (t_map (\<lambda>r. negative_weight w * r) negative_reward)) (\<lambda>reward_margin.
     let loss = - t_mean (t_map logsigmoid (t_map (\<lambda>r. beta w * r) reward_margin))
     in Inr (loss, t_mean reward_margin)))))"

definition DpoWrapper_forward ::
  "DpoWrapper \<Rightarrow> int tensor2 \<Rightarrow> int tensor2 \<Rightarrow> int tensor2 \<Rightarrow> int tensor2 \<Rightarrow> error + real \<times> real" where
  "DpoWrapper_forward w positive_token_ids positive_labels negative_token_ids negative_labels =
     bindE (dpo_losses w positive_token_ids positive_labels negative_token_ids negative_labels)
       (dpo_objective w)"

text \<open>The numbers of elements of the four losses, in the order of \<open>dpo_losses\<close>.\<close>

definition loss_sizes ::
  "tensor01 option \<times> tensor01 option \<times> tensor01 option \<times> tensor01 option \<Rightarrow> nat option list" where
  "loss_sizes losses =
     (case losses of (a, b, c, d) \<Rightarrow> map (map_option numel) [a, b, c, d])"

section \<open>Shapes that the constructors establish\<close>

text \<open>
  Training changes the values of the parameters and never their shapes. The predicates
  below say which shapes a module has after construction with the given sizes.
\<close>

definition wf_linear :: "nat \<Rightarrow> nat \<Rightarrow> Linear \<Rightarrow> bool" where
  "wf_linear n_in n_out l \<longleftrightarrow>
     in_features l = n_in \<and> out_features l = n_out \<and> length (weight l) = n_out \<and>
     (\<forall>r \<in> set (weight l). length r = n_in) \<and>
     (case bias l of None \<Rightarrow> True | Some b \<Rightarrow> length b = n_out)"

definition wf_embedding :: "nat \<Rightarrow> nat \<Rightarrow> Embedding \<Rightarrow> bool" where
  "wf_embedding n d e \<longleftrightarrow>
     num_embeddings e = n \<and> embedding_dim e = d \<and> length (table e) = n \<and>
     (\<forall>r \<in> set (table e). length r = d)"

definition wf_layernorm :: "nat \<Rightarrow> LayerNorm \<Rightarrow> bool" where
  "wf_layernorm d l \<longleftrightarrow>
     normalized_shape l = d \<and> length (ln_weight l) = d \<and> length (ln_bias l) = d"

definition wf_head :: "nat \<Rightarrow> nat \<Rightarrow> nat \<Rightarrow> AttentionHead \<Rightarrow> bool" where
  "wf_head dim_embed head_size max_len h \<longleftrightarrow>
     wf_linear dim_embed head_size (project_to_key h) \<and>
     wf_linear dim_embed head_size (project_to_query h) \<and>
     wf_linear dim_embed head_size (project_to_value h) \<and>
     tril h = torch_tril (torch_ones max_len max_len)"

definition wf_mha :: "nat \<Rightarrow> nat \<Rightarrow> nat \<Rightarrow> nat \<Rightarrow> MultiHeadAttention \<Rightarrow> bool" where
  "wf_mha dim_embed num_heads head_size max_len a \<longleftrightarrow>
     0 < num_heads \<and> length (heads a) = num_heads \<and>
     (\<forall>h \<in> set (heads a). wf_head dim_embed head_size max_len h) \<and>
     wf_linear (head_size * num_heads) dim_embed (mha_project a)"

definition wf_ff :: "nat \<Rightarrow> FeedForward \<Rightarrow> bool" where
  "wf_ff dim_embed f \<longleftrightarrow>
     wf_linear dim_embed (4 * dim_embed) (ff_up f) \<and>
     wf_linear (4 * dim_embed) dim_embed (ff_down f)"

definition wf_block :: "nat \<Rightarrow> nat \<Rightarrow> nat \<Rightarrow> TranformerBlock \<Rightarrow> bool" where
  "wf_block dim_embed num_heads max_len b \<longleftrightarrow>
     wf_mha dim_embed num_heads (dim_embed div num_heads) max_len (multi_head_attention b) \<and>
     wf_ff dim_embed (feed_forward b) \<and>
     wf_layernorm dim_embed (layer_norm1 b) \<and> wf_layernorm dim_embed (layer_norm2 b)"

definition wf_llm :: "nat \<Rightarrow> nat \<Rightarrow> nat \<Rightarrow> nat \<Rightarrow> nat \<Rightarrow> TutorialLLM \<Rightarrow> bool" where
  "wf_llm vocabulary_size dim_embed max_len num_head num_layer m \<longleftrightarrow>
     max_length m = max_len \<and>
     wf_embedding vocabulary_size dim_embed (token_embedding_table m) \<and>
     wf_embedding max_len dim_embed (position_embedding_table m) \<and>
     length (transformer_blocks m) = num_layer \<and>
     (\<forall>b \<in> set (transformer_blocks m). wf_block dim_embed num_head max_len b) \<and>
     wf_layernorm dim_embed (layer_norm_final m) \<and>
     wf_linear dim_embed vocabulary_size (llm_project m)"

text \<open>A batch of token ids for a vocabulary: well shaped, every id in \<open>[0, vocabulary_size)\<close>.\<close>

definition token_batch :: "nat \<Rightarrow> int tensor2 \<Rightarrow> bool" where
  "token_batch vocabulary_size t \<longleftrightarrow>
     wf2 t \<and> (\<forall>r \<in> set (cells t). \<forall>i \<in> set r. 0 \<le> i \<and> i < int vocabulary_size)"

section \<open>Concrete configurations\<close>

text \<open>
  The configuration of the specification's scenario: vocabulary size 5, embedding
  dimension 8, context length 4, 2 heads, 1 layer; and small inputs for it.
\<close>

definition demo_llm :: TutorialLLM where
  "demo_llm = projr (TutorialLLM_init 5 8 4 2 1 ''cpu'' zero_rnd)"

definition demo_head :: AttentionHead where
  "demo_head = AttentionHead_init 8 4 4 zero_rnd"

definition demo_input :: "real tensor3" where
  "demo_input = \<lparr>nbatch = 1, nseq = 2, nfeat = 8, vals = [[replicate 8 1, replicate 8 2]]\<rparr>"

definition demo_ids :: "int tensor2" where
  "demo_ids = \<lparr>nrows = 1, ncols = 2, cells = [[1, 2]]\<rparr>"

definition demo_labels :: "int tensor2" where
  "demo_labels = \<lparr>nrows = 1, ncols = 2, cells = [[2, 3]]\<rparr>"

definition demo_long_row :: "int list" where
  "demo_long_row = [1, 2, 3, 4, 1, 2]"

definition demo_pair :: "int tensor2" where
  "demo_pair = \<lparr>nrows = 2, ncols = 1, cells = [[1], [2]]\<rparr>"

definition first_category :: "nat \<Rightarrow> nat \<Rightarrow> real list \<Rightarrow> nat" where
  "first_category k b p = 0"

definition demo_dpo :: DpoWrapper where
  "demo_dpo = DpoWrapper_init demo_llm (1 / 10) (8 / 10)"

section \<open>Results and lists of results\<close>

lemma bindE_Inr [simp]: "bindE (Inr v) f = f v"
  by (simp add: bindE_def)

lemma bindE_Inl [simp]: "bindE (Inl e) f = Inl e"
  by (simp add: bindE_def)

lemma bindE_eq_Inr: "bindE r f = Inr y \<longleftrightarrow> (\<exists>v. r = Inr v \<and> f v = Inr y)"
  by (cases r) simp_all

lemma mapE_eq_Inr: "mapE f xs = Inr ys \<longleftrightarrow> list_all2 (\<lambda>x y. f x = Inr y) xs ys"
proof (induction xs arbitrary: ys)
  case Nil
  show ?case by auto
next
  case (Cons x xs)
  show ?case
    by (cases ys) (auto simp: bindE_eq_Inr Cons.IH)
qed

lemma mapE_total:
  "(\<And>x. x \<in> set xs \<Longrightarrow> \<exists>y. f x = Inr y) \<Longrightarrow> \<exists>ys. mapE f xs = Inr ys"
proof (induction xs)
  case Nil
  show ?case by simp
next
  case (Cons x xs)
  obtain y where "f x = Inr y" using Cons.prems by auto
  moreover obtain ys where "mapE f xs = Inr ys" using Cons by auto
  ultimately show ?case by simp
qed

section \<open>Construction\<close>

lemma wf_linear_init: "wf_linear n_in n_out (Linear_init n_in n_out wb rnd)"
  by (auto simp: wf_linear_def Linear_init_def)

lemma wf_embedding_init: "wf_embedding n d (Embedding_init n d rnd)"
  by (auto simp: wf_embedding_def Embedding_init_def)

lemma wf_layernorm_init: "wf_layernorm d (LayerNorm_init d)"
  by (simp add: wf_layernorm_def LayerNorm_init_def)

lemma wf_head_init: "wf_head d hs L (AttentionHead_init d hs L rnd)"
  by (simp add: wf_head_def AttentionHead_init_def wf_linear_init)

lemma wf_mha_init: "0 < H \<Longrightarrow> wf_mha d H hs L (MultiHeadAttention_init d H hs L rnd)"
  by (auto simp: wf_mha_def MultiHeadAttention_init_def wf_linear_init wf_head_init)

lemma wf_ff_init: "wf_ff d (FeedForward_init d rnd)"
  by (simp add: wf_ff_def FeedForward_init_def wf_linear_init)

lemma wf_block_init:
  "TranformerBlock_init d H L rnd = Inr b \<Longrightarrow> 0 < H \<and> wf_block d H L b"
  by (auto simp: TranformerBlock_init_def wf_block_def Let_def wf_mha_init wf_ff_init
      wf_layernorm_init split: if_splits)

lemma block_init_total: "0 < H \<Longrightarrow> \<exists>b. TranformerBlock_init d H L rnd = Inr b"
  by (simp add: TranformerBlock_init_def Let_def)

lemma wf_llm_init:
  assumes "TutorialLLM_init V d L H N dev rnd = Inr m"
  shows "wf_llm V d L H N m"
proof -
  obtain blocks where
    bl: "list_all2 (\<lambda>k b. TranformerBlock_init d H L (sub rnd (3 + k)) = Inr b) [0..<N] blocks"
    and m: "m = \<lparr>max_length = L, device = dev,
           token_embedding_table = Embedding_init V d (sub rnd 0),
           position_embedding_table = Embedding_init L d (sub rnd 1),
           transformer_blocks = blocks,
           layer_norm_final = LayerNorm_init d,
           llm_project = Linear_init d V True (sub rnd 2)\<rparr>"
    using assms by (auto simp: TutorialLLM_init_def bindE_eq_Inr mapE_eq_Inr)
  have len: "length blocks = N" using bl by (auto dest: list_all2_lengthD)
  have "wf_block d H L b" if "b \<in> set blocks" for b
  proof -
    from that obtain i where "i < length blocks" "blocks ! i = b"
      unfolding in_set_conv_nth by blast
    then have "TranformerBlock_init d H L (sub rnd (3 + [0..<N] ! i)) = Inr b"
      using bl by (auto simp: list_all2_conv_all_nth)
    then show ?thesis using wf_block_init by blast
  qed
  then show ?thesis
    by (simp add: wf_llm_def m len wf_embedding_init wf_layernorm_init wf_linear_init)
qed

lemma llm_init_total:
  assumes "0 < H \<or> N = 0"
  shows "\<exists>m. TutorialLLM_init V d L H N dev rnd = Inr m"
proof -
  have "\<exists>bs. mapE (\<lambda>k. TranformerBlock_init d H L (sub rnd (3 + k))) [0..<N] = Inr bs"
    using assms by (intro mapE_total) (auto simp: block_init_total)
  then show ?thesis by (auto simp: TutorialLLM_init_def)
qed

text \<open>
  C9, as the code has it. The constructors validate nothing. Constructing a transformer
  block with at least one head succeeds for every embedding dimension, divisible by the
  number of heads or not, and gives heads of size \<open>dim_embed div num_heads\<close> (this is part
  of \<open>wf_block\<close>). Constructing a \<open>DpoWrapper\<close> stores any positive weight \<open>pw\<close> and the
  negative weight \<open>1 - pw\<close>, inside or outside of \<open>[0, 1]\<close>. So construction succeeds for
  all valid configurations, and for the invalid ones as well.
\<close>

theorem construction_unvalidated:
  assumes "0 < num_heads"
  shows "(\<exists>b. TranformerBlock_init dim_embed num_heads max_len rnd = Inr b \<and>
              wf_block dim_embed num_heads max_len b) \<and>
         positive_weight (DpoWrapper_init model b pw) = pw \<and>
         negative_weight (DpoWrapper_init model b pw) = 1 - pw"
proof -
  obtain blk where "TranformerBlock_init dim_embed num_heads max_len rnd = Inr blk"
    using block_init_total [OF assms] by blast
  then show ?thesis
    using wf_block_init by (auto simp: DpoWrapper_init_def)
qed

theorem construction_unvalidated_witness:
  "(0::nat) < 2 \<and>
   (\<exists>b. TranformerBlock_init 7 2 4 zero_rnd = Inr b \<and> wf_block 7 2 4 b) \<and>
   positive_weight (DpoWrapper_init demo_llm (1 / 10) (3 / 2)) = 3 / 2 \<and>
   negative_weight (DpoWrapper_init demo_llm (1 / 10) (3 / 2)) = 1 - 3 / 2"
  using construction_unvalidated [of 2 7 4 zero_rnd demo_llm "1 / 10" "3 / 2"] by simp

text \<open>
  C9 as stated fails: with \<open>dim_embed = 7\<close> and \<open>num_heads = 2\<close>, where 2 does not divide 7,
  the construction of a block returns a block and no error; and a \<open>DpoWrapper\<close> is
  constructed with the positive weight \<open>3 / 2\<close>, which is outside of \<open>[0, 1]\<close>.
\<close>

theorem construction_counterexample:
  "\<not> (2::nat) dvd 7 \<and> \<not> isl (TranformerBlock_init 7 2 4 zero_rnd) \<and>
   \<not> ((0::real) \<le> 3 / 2 \<and> (3 / 2 :: real) \<le> 1) \<and>
   positive_weight (DpoWrapper_init demo_llm (1 / 10) (3 / 2)) = 3 / 2"
  by (simp add: TranformerBlock_init_def DpoWrapper_init_def)

section \<open>Shapes of the tensor operations\<close>

lemma shaped3I: "wf3 x \<Longrightarrow> nbatch x = B \<Longrightarrow> nseq x = T \<Longrightarrow> nfeat x = D \<Longrightarrow> shaped3 B T D x"
  by (simp add: shaped3_def)

lemma shaped3_nth:
  assumes "shaped3 B T D x" "b < B"
  shows "length (vals x ! b) = T" and "i < T \<Longrightarrow> length (vals x ! b ! i) = D"
proof -
  have m: "vals x ! b \<in> set (vals x)"
    using assms by (simp add: shaped3_def wf3_def)
  then show l: "length (vals x ! b) = T"
    using assms by (simp add: shaped3_def wf3_def)
  show "length (vals x ! b ! i) = D" if "i < T"
  proof -
    have "vals x ! b ! i \<in> set (vals x ! b)" using that l by simp
    then show ?thesis using m assms unfolding shaped3_def wf3_def by blast
  qed
qed

lemma shaped3_length: "shaped3 B T D x \<Longrightarrow> length (vals x) = B"
  by (simp add: shaped3_def wf3_def)

lemma shaped3_set:
  "shaped3 B T D x \<Longrightarrow> m \<in> set (vals x) \<Longrightarrow> length m = T"
  "shaped3 B T D x \<Longrightarrow> m \<in> set (vals x) \<Longrightarrow> v \<in> set m \<Longrightarrow> length v = D"
  by (auto simp: shaped3_def wf3_def)

lemma length_affine: "wf_linear n_in n_out l \<Longrightarrow> length (affine l v) = n_out"
  by (auto simp: wf_linear_def affine_def split: option.splits)

lemma Linear_forward_shaped:
  assumes "wf_linear n_in n_out l" "shaped3 B T n_in x"
  shows "\<exists>y. Linear_forward l x = Inr y \<and> shaped3 B T n_out y \<and>
             vals y = map (map (affine l)) (vals x)"
proof -
  have "nfeat x = in_features l"
    using assms by (simp add: wf_linear_def shaped3_def)
  moreover have "out_features l = n_out"
    using assms by (simp add: wf_linear_def)
  ultimately show ?thesis
    using assms by (auto simp: Linear_forward_def shaped3_def wf3_def length_affine)
qed

lemma length_layer_norm_vec:
  "wf_layernorm d l \<Longrightarrow> length v = d \<Longrightarrow> length (layer_norm_vec l v) = d"
  by (simp add: wf_layernorm_def layer_norm_vec_def Let_def)

lemma LayerNorm_forward_shaped:
  assumes "wf_layernorm D l" "shaped3 B T D x"
  shows "\<exists>y. LayerNorm_forward l x = Inr y \<and> shaped3 B T D y"
  using assms
  by (auto simp: LayerNorm_forward_def shaped3_def wf3_def length_layer_norm_vec wf_layernorm_def)

lemma relu3_shaped: "shaped3 B T D x \<Longrightarrow> shaped3 B T D (relu3 x)"
  by (auto simp: relu3_def shaped3_def wf3_def)

lemma scale3_shaped: "shaped3 B T D x \<Longrightarrow> shaped3 B T D (scale3 c x)"
  by (auto simp: scale3_def shaped3_def wf3_def)

lemma add3_shaped:
  assumes "shaped3 B T D x" "shaped3 B T D y"
  shows "\<exists>z. add3 x y = Inr z \<and> shaped3 B T D z"
proof -
  have "length m = T \<and> (\<forall>v \<in> set m. length v = D)"
    if "m \<in> set (map2 (map2 (map2 (+))) (vals x) (vals y))" for m
  proof -
    from that obtain mx my where "mx \<in> set (vals x)" "my \<in> set (vals y)"
      and m: "m = map2 (map2 (+)) mx my"
      by (auto dest: set_zip_leftD set_zip_rightD)
    then have l: "length mx = T" "length my = T"
      and v: "\<forall>v \<in> set mx. length v = D" "\<forall>v \<in> set my. length v = D"
      using assms by (auto simp: shaped3_def wf3_def)
    have "length v = D" if "v \<in> set m" for v
    proof -
      from that obtain vx vy where "vx \<in> set mx" "vy \<in> set my" "v = map2 (+) vx vy"
        unfolding m by (auto dest: set_zip_leftD set_zip_rightD)
      then show ?thesis using v by simp
    qed
    then show ?thesis using l by (simp add: m)
  qed
  then show ?thesis
    using assms by (simp add: add3_def shaped3_def wf3_def)
qed

lemma add_broadcast_shaped:
  assumes "shaped3 B T D x" "shaped2 T D p"
  shows "\<exists>z. add_broadcast x p = Inr z \<and> shaped3 B T D z"
proof -
  have "length (map2 (map2 (+)) m (cells p)) = T \<and>
        (\<forall>v \<in> set (map2 (map2 (+)) m (cells p)). length v = D)"
    if "m \<in> set (vals x)" for m
  proof -
    have l: "length m = T" and v: "\<forall>v \<in> set m. length v = D"
      using that assms(1) by (auto simp: shaped3_def wf3_def)
    have lp: "length (cells p) = T" and vp: "\<forall>r \<in> set (cells p). length r = D"
      using assms(2) by (auto simp: shaped2_def wf2_def)
    have "length w = D" if "w \<in> set (map2 (map2 (+)) m (cells p))" for w
    proof -
      from that obtain vx vy where "vx \<in> set m" "vy \<in> set (cells p)" "w = map2 (+) vx vy"
        by (auto dest: set_zip_leftD set_zip_rightD)
      then show ?thesis using v vp by simp
    qed
    then show ?thesis using l lp by simp
  qed
  then show ?thesis
    using assms by (auto simp: add_broadcast_def shaped3_def shaped2_def wf3_def)
qed

lemma transpose_last_shaped: "shaped3 B T D x \<Longrightarrow> shaped3 B D T (transpose_last x)"
  by (auto simp: transpose_last_def shaped3_def wf3_def)

lemma matmul_shaped:
  assumes "shaped3 B n k a" "shaped3 B k p b"
  shows "\<exists>c. matmul a b = Inr c \<and> shaped3 B n p c"
proof -
  have "length m = n \<and> (\<forall>v \<in> set m. length v = p)"
    if "m \<in> set (map2 (\<lambda>ma mb. map (\<lambda>row. map (\<lambda>j. dot row (map (\<lambda>r. r ! j) mb)) [0..<p]) ma)
                    (vals a) (vals b))" for m
  proof -
    from that obtain ma mb where "ma \<in> set (vals a)"
      and m: "m = map (\<lambda>row. map (\<lambda>j. dot row (map (\<lambda>r. r ! j) mb)) [0..<p]) ma"
      by (auto dest: set_zip_leftD)
    then have "length ma = n" using assms(1) by (auto simp: shaped3_def wf3_def)
    then show ?thesis by (auto simp: m)
  qed
  then show ?thesis
    using assms by (simp add: matmul_def shaped3_def wf3_def)
qed

section \<open>The attention head\<close>

lemma matmul_nth:
  assumes a: "shaped3 B n k a" and b: "shaped3 B k p b"
    and c: "matmul a b = Inr c" and i: "bi < B" "i < n" "j < p"
  shows "vals c ! bi ! i ! j = dot (vals a ! bi ! i) (map (\<lambda>r. r ! j) (vals b ! bi))"
proof -
  have la: "length (vals a) = B" and lb: "length (vals b) = B"
    using a b by (simp_all add: shaped3_length)
  have lai: "length (vals a ! bi) = n"
    using a i by (simp add: shaped3_nth)
  have "nfeat b = p" using b by (simp add: shaped3_def)
  then have "vals c = map2 (\<lambda>ma mb. map (\<lambda>row. map (\<lambda>j. dot row (map (\<lambda>r. r ! j) mb)) [0..<p]) ma)
                         (vals a) (vals b)"
    using c by (auto simp: matmul_def split: if_splits)
  then show ?thesis
    using la lb lai i by simp
qed

lemma transpose_last_column:
  assumes "shaped3 B T D x" "bi < B" "j < T"
  shows "map (\<lambda>r. r ! j) (vals (transpose_last x) ! bi) = vals x ! bi ! j"
proof -
  have l: "length (vals x) = B" using assms by (simp add: shaped3_length)
  have lj: "length (vals x ! bi) = T" "length (vals x ! bi ! j) = D"
    using assms by (simp_all add: shaped3_nth)
  have D: "nfeat x = D" using assms by (simp add: shaped3_def)
  have "map (\<lambda>r. r ! j) (vals (transpose_last x) ! bi) = map (\<lambda>d. vals x ! bi ! j ! d) [0..<D]"
    using l lj assms(2,3) by (simp add: transpose_last_def D o_def)
  also have "\<dots> = vals x ! bi ! j"
    using lj(2) map_nth [of "vals x ! bi ! j"] by simp
  finally show ?thesis .
qed

lemma pow_neg_half_pos: "0 < n \<Longrightarrow> pow_neg_half n = Inr (1 / sqrt (real n))"
  by (simp add: pow_neg_half_def powr_minus powr_half_sqrt field_simps)

lemma scaled_scores_value:
  assumes h: "wf_head D hs L h" and x: "shaped3 B T D input" and D: "0 < D"
  shows "\<exists>s value. scaled_scores h input = Inr (s, value) \<and> shaped3 B T T s \<and>
           shaped3 B T hs value \<and>
           vals value = map (map (affine (project_to_value h))) (vals input) \<and>
           (\<forall>b<B. \<forall>i<T. \<forall>j<T. vals s ! b ! i ! j =
              dot (affine (project_to_query h) (vals input ! b ! i))
                  (affine (project_to_key h) (vals input ! b ! j)) * (1 / sqrt (real D)))"
proof -
  have nf: "nfeat input = D" using x by (simp add: shaped3_def)
  have lx: "length (vals input) = B" using x by (simp add: shaped3_length)
  obtain key where key: "Linear_forward (project_to_key h) input = Inr key"
    "shaped3 B T hs key" "vals key = map (map (affine (project_to_key h))) (vals input)"
    using Linear_forward_shaped [OF _ x, of hs "project_to_key h"] h
    by (auto simp: wf_head_def)
  obtain query where query: "Linear_forward (project_to_query h) input = Inr query"
    "shaped3 B T hs query" "vals query = map (map (affine (project_to_query h))) (vals input)"
    using Linear_forward_shaped [OF _ x, of hs "project_to_query h"] h
    by (auto simp: wf_head_def)
  obtain "value" where "value": "Linear_forward (project_to_value h) input = Inr value"
    "shaped3 B T hs value" "vals value = map (map (affine (project_to_value h))) (vals input)"
    using Linear_forward_shaped [OF _ x, of hs "project_to_value h"] h
    by (auto simp: wf_head_def)
  have kt: "shaped3 B hs T (transpose_last key)"
    using key(2) by (rule transpose_last_shaped)
  obtain w where w: "matmul query (transpose_last key) = Inr w" "shaped3 B T T w"
    using matmul_shaped [OF query(2) kt] by blast
  have ss: "scaled_scores h input = Inr (scale3 (1 / sqrt (real D)) w, value)"
    by (simp add: scaled_scores_def Let_def key(1) query(1) "value"(1) w(1) nf
        pow_neg_half_pos [OF D])
  have entry: "vals (scale3 (1 / sqrt (real D)) w) ! b ! i ! j =
      dot (affine (project_to_query h) (vals input ! b ! i))
          (affine (project_to_key h) (vals input ! b ! j)) * (1 / sqrt (real D))"
    if "b < B" "i < T" "j < T" for b i j
  proof -
    have lw: "length (vals w) = B" "length (vals w ! b) = T" "length (vals w ! b ! i) = T"
      using w(2) that by (simp_all add: shaped3_length shaped3_nth)
    have lxb: "length (vals input ! b) = T"
      using x that by (simp add: shaped3_nth)
    have "vals w ! b ! i ! j = dot (vals query ! b ! i) (vals key ! b ! j)"
      using matmul_nth [OF query(2) kt w(1) that] transpose_last_column [OF key(2) that(1,3)]
      by simp
    then show ?thesis
      using lw lx lxb that by (simp add: scale3_def query(3) key(3))
  qed
  show ?thesis
    using ss scale3_shaped [OF w(2)] "value"(2,3) entry by blast
qed

lemma tril_cells:
  "cells (torch_tril (torch_ones L L)) =
     map (\<lambda>i. map (\<lambda>j. if j \<le> i then 1 else 0) [0..<L]) [0..<L]"
  by (auto simp: torch_tril_def torch_ones_def enumerate_eq_zip intro!: nth_equalityI)

lemma causal_mask:
  assumes "T \<le> L"
  shows "eq_zero (slice2 T T (torch_tril (torch_ones L L))) =
           \<lparr>nrows = T, ncols = T, cells = map (\<lambda>i. map (\<lambda>j. i < j) [0..<T]) [0..<T]\<rparr>"
proof -
  have "map (take T) (take T (cells (torch_tril (torch_ones L L)))) =
          map (\<lambda>i. map (\<lambda>j. if j \<le> i then (1::real) else 0) [0..<T]) [0..<T]"
    using assms by (simp add: tril_cells take_map min_def)
  moreover have "nrows (torch_tril (torch_ones L L)) = L" "ncols (torch_tril (torch_ones L L)) = L"
    by (simp_all add: torch_tril_def torch_ones_def)
  ultimately show ?thesis
    using assms by (simp add: eq_zero_def slice2_def min_def o_def not_le)
qed

lemma expand_same: "length xs = n \<Longrightarrow> expand n xs = xs"
  by (simp add: expand_def)

lemma masked_fill_causal:
  assumes s: "shaped3 B T T s"
  shows "\<exists>w. masked_fill s \<lparr>nrows = T, ncols = T,
                 cells = map (\<lambda>i. map (\<lambda>j. i < j) [0..<T]) [0..<T]\<rparr> = Inr w \<and>
           shaped3 B T T w \<and>
           (\<forall>b<B. \<forall>i<T. vals w ! b ! i =
              map (\<lambda>j. if i < j then MInf else Fin (vals s ! b ! i ! j)) [0..<T])"
proof -
  define fill where "fill = (\<lambda>m :: real list list.
     map2 (\<lambda>row mrow. map2 (\<lambda>v b. if b then MInf else Fin v) row (expand T mrow))
       m (expand T (map (\<lambda>i. map (\<lambda>j. i < j) [0..<T]) [0..<T])))"
  define w where "w = \<lparr>nbatch = B, nseq = T, nfeat = T, vals = map fill (vals s)\<rparr>"
  have dims: "nbatch s = B" "nseq s = T" "nfeat s = T" "length (vals s) = B"
    using s by (simp_all add: shaped3_def wf3_def)
  have eq: "masked_fill s \<lparr>nrows = T, ncols = T,
              cells = map (\<lambda>i. map (\<lambda>j. i < j) [0..<T]) [0..<T]\<rparr> = Inr w"
    by (simp add: masked_fill_def dims w_def fill_def)
  have row: "fill m ! i = map (\<lambda>j. if i < j then MInf else Fin (m ! i ! j)) [0..<T]"
    and len: "length (fill m) = T"
    if m: "length m = T" "\<forall>v \<in> set m. length v = T" and i: "i < T" for m i
  proof -
    have li: "length (m ! i) = T" using m i by simp
    have "fill m ! i = map2 (\<lambda>v b. if b then MInf else Fin v) (m ! i) (map (\<lambda>j. i < j) [0..<T])"
      using m i by (simp add: fill_def expand_same)
    also have "\<dots> = map (\<lambda>j. if i < j then MInf else Fin (m ! i ! j)) [0..<T]"
      using li by (auto intro!: nth_equalityI)
    finally show "fill m ! i = map (\<lambda>j. if i < j then MInf else Fin (m ! i ! j)) [0..<T]" .
    show "length (fill m) = T" using m by (simp add: fill_def expand_same)
  qed
  have lenfill: "length (fill m) = T" if "length m = T" for m
    using that by (simp add: fill_def expand_same)
  have mem: "length m = T \<and> (\<forall>v \<in> set m. length v = T)" if "m \<in> set (vals s)" for m
    using s that by (auto simp: shaped3_def wf3_def)
  have wf: "shaped3 B T T w"
  proof -
    have "length fm = T \<and> (\<forall>v \<in> set fm. length v = T)" if "fm \<in> set (map fill (vals s))" for fm
    proof -
      from that obtain m where m: "m \<in> set (vals s)" "fm = fill m" by auto
      have "length v = T" if "v \<in> set fm" for v
      proof -
        from that obtain i where "i < length fm" "fm ! i = v"
          unfolding in_set_conv_nth by blast
        then show ?thesis using row [of m i] mem [OF m(1)] lenfill [of m] m(2) by auto
      qed
      then show ?thesis using lenfill mem [OF m(1)] m(2) by simp
    qed
    then show ?thesis by (simp add: shaped3_def wf3_def w_def dims)
  qed
  have "vals w ! b ! i = map (\<lambda>j. if i < j then MInf else Fin (vals s ! b ! i ! j)) [0..<T]"
    if "b < B" "i < T" for b i
  proof -
    have "vals s ! b \<in> set (vals s)" using that dims by simp
    from mem [OF this] have "fill (vals s ! b) ! i =
        map (\<lambda>j. if i < j then MInf else Fin (vals s ! b ! i ! j)) [0..<T]"
      using row [of "vals s ! b" i] that by blast
    then show ?thesis using that dims by (simp add: w_def)
  qed
  then show ?thesis using eq wf by blast
qed

lemma sum_list_zero:
  fixes f :: "'a \<Rightarrow> real"
  shows "(\<And>x. x \<in> set xs \<Longrightarrow> f x = 0) \<Longrightarrow> sum_list (map f xs) = 0"
  by (induction xs) auto

lemma sum_list_exp_pos:
  fixes f :: "'a \<Rightarrow> real"
  assumes "xs \<noteq> []"
  shows "0 < sum_list (map (\<lambda>j. exp (f j)) xs)"
proof -
  obtain y ys where xs: "xs = y # ys" using assms by (cases xs) auto
  have "0 \<le> sum_list (map (\<lambda>j. exp (f j)) ys)"
    by (rule sum_list_nonneg) auto
  then show ?thesis by (simp add: xs add_pos_nonneg)
qed

lemma sum_list_upt_split:
  fixes f :: "nat \<Rightarrow> real"
  assumes "i < T"
  shows "sum_list (map f [0..<T]) = sum_list (map f [0..<Suc i]) + sum_list (map f [Suc i..<T])"
proof -
  have "[0..<T] = [0..<Suc i] @ [Suc i..<T]"
    using assms upt_add_eq_append [of 0 "Suc i" "T - Suc i"] by simp
  then show ?thesis by (metis map_append sum_list_append)
qed

lemma softmax_causal_row:
  fixes f :: "nat \<Rightarrow> real"
  assumes i: "i < T"
  defines "row \<equiv> map (\<lambda>j. if i < j then MInf else Fin (f j)) [0..<T]"
  shows "length (softmax row) = T"
    and "\<forall>j<T. i < j \<longrightarrow> softmax row ! j = 0"
    and "sum_list (take (Suc i) (softmax row)) = 1"
proof -
  define Z where "Z = sum_list (map xexp row)"
  show "length (softmax row) = T" by (simp add: softmax_def row_def)
  show "\<forall>j<T. i < j \<longrightarrow> softmax row ! j = 0"
    by (simp add: softmax_def row_def xexp_def)
  define g where "g = (\<lambda>j. xexp (if i < j then MInf else Fin (f j)))"
  have tail: "sum_list (map g [Suc i..<T]) = 0"
    by (rule sum_list_zero) (simp add: g_def xexp_def)
  have hd: "map g [0..<Suc i] = map (\<lambda>j. exp (f j)) [0..<Suc i]"
    by (rule map_cong) (auto simp: g_def xexp_def)
  have "Z = sum_list (map g [0..<T])"
    by (simp add: Z_def row_def g_def o_def)
  also have "\<dots> = sum_list (map g [0..<Suc i]) + sum_list (map g [Suc i..<T])"
    by (rule sum_list_upt_split [OF i])
  also have "\<dots> = sum_list (map (\<lambda>j. exp (f j)) [0..<Suc i])"
    by (simp only: tail hd add_0_right)
  finally have Z: "Z = sum_list (map (\<lambda>j. exp (f j)) [0..<Suc i])" .
  have "0 < sum_list (map (\<lambda>j. exp (f j)) [0..<Suc i])"
    by (rule sum_list_exp_pos) simp
  then have Zpos: "Z \<noteq> 0" using Z by simp
  have sm: "softmax row = map (\<lambda>s. xexp s / Z) row"
    by (simp add: softmax_def Z_def)
  have tk: "take (Suc i) row = map (\<lambda>j. if i < j then MInf else Fin (f j)) [0..<Suc i]"
    using i unfolding row_def take_map by (simp add: min_def del: upt_Suc)
  have "take (Suc i) (softmax row) = map (\<lambda>j. exp (f j) / Z) [0..<Suc i]"
    unfolding sm take_map tk map_map o_def
    by (rule map_cong) (auto simp: xexp_def)
  then have "sum_list (take (Suc i) (softmax row)) = sum_list (map (\<lambda>j. exp (f j) * (1 / Z)) [0..<Suc i])"
    by simp
  also have "\<dots> = sum_list (map (\<lambda>j. exp (f j)) [0..<Suc i]) * (1 / Z)"
    by (rule sum_list_mult_const)
  also have "\<dots> = 1" using Z Zpos by simp
  finally show "sum_list (take (Suc i) (softmax row)) = 1" .
qed

lemma length_softmax [simp]: "length (softmax xs) = length xs"
  by (simp add: softmax_def)

lemma softmax3_shaped: "shaped3 B T D x \<Longrightarrow> shaped3 B T D (softmax3 x)"
  by (auto simp: softmax3_def shaped3_def wf3_def)

lemma attention_weights_rows:
  assumes h: "wf_head D hs L h" and x: "shaped3 B T D input" and T: "T \<le> L" and D: "0 < D"
  shows "\<exists>w value f. attention_weights h input = Inr (w, value) \<and> shaped3 B T T w \<and>
           shaped3 B T hs value \<and>
           (\<forall>b<B. \<forall>i<T. vals w ! b ! i =
              softmax (map (\<lambda>j. if i < j then MInf else Fin (f b i j)) [0..<T]))"
proof -
  obtain s "value" where s: "scaled_scores h input = Inr (s, value)" "shaped3 B T T s"
    "shaped3 B T hs value"
    using scaled_scores_value [OF h x D] by blast
  have tr: "tril h = torch_tril (torch_ones L L)" using h by (simp add: wf_head_def)
  have nseq: "nseq input = T" using x by (simp add: shaped3_def)
  obtain w where w: "masked_fill s (eq_zero (slice2 T T (tril h))) = Inr w" "shaped3 B T T w"
    "\<forall>b<B. \<forall>i<T. vals w ! b ! i =
        map (\<lambda>j. if i < j then MInf else Fin (vals s ! b ! i ! j)) [0..<T]"
    using masked_fill_causal [OF s(2)] unfolding tr causal_mask [OF T] by blast
  have eq: "attention_weights h input = Inr (softmax3 w, value)"
    by (simp add: attention_weights_def Let_def nseq s(1) w(1))
  have "vals (softmax3 w) ! b ! i =
      softmax (map (\<lambda>j. if i < j then MInf else Fin (vals s ! b ! i ! j)) [0..<T])"
    if "b < B" "i < T" for b i
  proof -
    have "length (vals w) = B" "length (vals w ! b) = T"
      using w(2) that by (simp_all add: shaped3_length shaped3_nth)
    then show ?thesis using that w(3) by (simp add: softmax3_def)
  qed
  then show ?thesis
    using eq softmax3_shaped [OF w(2)] s(3)
    by (intro exI [of _ "softmax3 w"] exI [of _ "value"]
        exI [of _ "\<lambda>b i j. vals s ! b ! i ! j"]) simp
qed

lemma AttentionHead_forward_shaped:
  assumes "wf_head D hs L h" "shaped3 B T D input" "T \<le> L" "0 < D"
  shows "\<exists>y. AttentionHead_forward h input = Inr y \<and> shaped3 B T hs y"
proof -
  obtain w "value" where "attention_weights h input = Inr (w, value)" "shaped3 B T T w"
    "shaped3 B T hs value"
    using attention_weights_rows [OF assms] by blast
  then show ?thesis
    using matmul_shaped [of B T T w hs "value"] by (simp add: AttentionHead_forward_def)
qed

lemma cat_last_shaped:
  assumes "xs \<noteq> []" "\<forall>x \<in> set xs. shaped3 B T hs x"
  shows "\<exists>y. cat_last xs = Inr y \<and> shaped3 B T (hs * length xs) y"
  using assms
proof (induction xs rule: cat_last.induct)
  case 1
  then show ?case by simp
next
  case (2 x)
  then show ?case by simp
next
  case (3 x y ys)
  then obtain r where r: "cat_last (y # ys) = Inr r" "shaped3 B T (hs * length (y # ys)) r"
    by auto
  have x: "shaped3 B T hs x" using "3.prems" by simp
  define n where "n = hs * length (y # ys)"
  have "length m = T \<and> (\<forall>v \<in> set m. length v = hs + n)"
    if "m \<in> set (map2 (map2 (@)) (vals x) (vals r))" for m
  proof -
    from that obtain mx mr where mm: "mx \<in> set (vals x)" "mr \<in> set (vals r)"
      "m = map2 (@) mx mr"
      by (auto dest: set_zip_leftD set_zip_rightD)
    have l: "length mx = T" "length mr = T"
      using mm x r(2) by (auto simp: shaped3_set)
    have "length v = hs + n" if "v \<in> set m" for v
    proof -
      from that obtain vx vr where "vx \<in> set mx" "vr \<in> set mr" "v = vx @ vr"
        unfolding mm(3) by (auto dest: set_zip_leftD set_zip_rightD)
      then show ?thesis
        using shaped3_set(2) [OF x mm(1)] shaped3_set(2) [OF r(2) mm(2)] by (simp add: n_def)
    qed
    then show ?thesis using l by (simp add: mm(3))
  qed
  then have "shaped3 B T (hs + n) \<lparr>nbatch = B, nseq = T, nfeat = hs + n,
      vals = map2 (map2 (@)) (vals x) (vals r)\<rparr>"
    using x r(2) by (simp add: shaped3_def wf3_def)
  moreover have "nbatch x = B" "nseq x = T" "nfeat x = hs" "nbatch r = B" "nseq r = T" "nfeat r = n"
    using x r(2) by (simp_all add: shaped3_def n_def)
  ultimately show ?case
    by (simp add: r(1) n_def)
qed

lemma mapE_shaped:
  assumes "\<And>x. x \<in> set xs \<Longrightarrow> \<exists>y. f x = Inr y \<and> P y"
  shows "\<exists>ys. mapE f xs = Inr ys \<and> length ys = length xs \<and> (\<forall>y \<in> set ys. P y)"
  using assms
proof (induction xs)
  case Nil
  show ?case by simp
next
  case (Cons x xs)
  obtain y where y: "f x = Inr y" "P y" using Cons.prems by auto
  obtain ys where "mapE f xs = Inr ys" "length ys = length xs" "\<forall>y \<in> set ys. P y"
    using Cons by auto
  then show ?case using y by simp
qed

lemma MultiHeadAttention_forward_shaped:
  assumes a: "wf_mha D H hs L a" and x: "shaped3 B T D input" and T: "T \<le> L" and D: "0 < D"
  shows "\<exists>y. MultiHeadAttention_forward a input = Inr y \<and> shaped3 B T D y"
proof -
  have "\<exists>y. AttentionHead_forward h input = Inr y \<and> shaped3 B T hs y" if "h \<in> set (heads a)" for h
    using that a AttentionHead_forward_shaped [OF _ x T D] by (auto simp: wf_mha_def)
  then obtain outs where outs: "mapE (\<lambda>head. AttentionHead_forward head input) (heads a) = Inr outs"
    "length outs = length (heads a)" "\<forall>y \<in> set outs. shaped3 B T hs y"
    using mapE_shaped [of "heads a" "\<lambda>head. AttentionHead_forward head input" "shaped3 B T hs"]
    by blast
  have "outs \<noteq> []" and len: "length outs = H" using outs(2) a by (auto simp: wf_mha_def)
  then obtain c where c: "cat_last outs = Inr c" "shaped3 B T (hs * H) c"
    using cat_last_shaped [OF _ outs(3)] by auto
  have "wf_linear (hs * H) D (mha_project a)" using a by (simp add: wf_mha_def)
  then show ?thesis
    using Linear_forward_shaped [OF _ c(2)] by (auto simp: MultiHeadAttention_forward_def outs(1) c(1))
qed

lemma FeedForward_forward_shaped:
  assumes f: "wf_ff D f" and x: "shaped3 B T D input"
  shows "\<exists>y. FeedForward_forward f input = Inr y \<and> shaped3 B T D y"
proof -
  obtain u where u: "Linear_forward (ff_up f) input = Inr u" "shaped3 B T (4 * D) u"
    using Linear_forward_shaped [OF _ x, of "4 * D" "ff_up f"] f by (auto simp: wf_ff_def)
  have "wf_linear (4 * D) D (ff_down f)" using f by (simp add: wf_ff_def)
  then show ?thesis
    using Linear_forward_shaped [OF _ relu3_shaped [OF u(2)]]
    by (auto simp: FeedForward_forward_def u(1))
qed

lemma TranformerBlock_forward_shaped:
  assumes b: "wf_block D H L b" and x: "shaped3 B T D input" and T: "T \<le> L" and D: "0 < D"
  shows "\<exists>y. TranformerBlock_forward b input = Inr y \<and> shaped3 B T D y"
proof -
  obtain n1 where n1: "LayerNorm_forward (layer_norm1 b) input = Inr n1" "shaped3 B T D n1"
    using LayerNorm_forward_shaped [OF _ x] b by (auto simp: wf_block_def)
  obtain att where att: "MultiHeadAttention_forward (multi_head_attention b) n1 = Inr att"
    "shaped3 B T D att"
  proof -
    have "wf_mha D H (D div H) L (multi_head_attention b)"
      using b by (simp add: wf_block_def)
    from MultiHeadAttention_forward_shaped [OF this n1(2) T D] that show ?thesis by blast
  qed
  obtain out where out: "add3 input att = Inr out" "shaped3 B T D out"
    using add3_shaped [OF x att(2)] by blast
  obtain n2 where n2: "LayerNorm_forward (layer_norm2 b) out = Inr n2" "shaped3 B T D n2"
    using LayerNorm_forward_shaped [OF _ out(2)] b by (auto simp: wf_block_def)
  obtain fd where fd: "FeedForward_forward (feed_forward b) n2 = Inr fd" "shaped3 B T D fd"
    using FeedForward_forward_shaped [OF _ n2(2)] b by (auto simp: wf_block_def)
  show ?thesis
    using add3_shaped [OF out(2) fd(2)]
    by (simp add: TranformerBlock_forward_def n1(1) att(1) out(1) n2(1) fd(1))
qed

lemma blocks_forward_shaped:
  assumes "\<forall>b \<in> set bs. wf_block D H L b" "shaped3 B T D x" "T \<le> L" "0 < D"
  shows "\<exists>y. foldE TranformerBlock_forward bs x = Inr y \<and> shaped3 B T D y"
  using assms
proof (induction bs arbitrary: x)
  case Nil
  then show ?case by simp
next
  case (Cons b bs)
  obtain y where y: "TranformerBlock_forward b x = Inr y" "shaped3 B T D y"
    using TranformerBlock_forward_shaped [of D H L b B T x] Cons.prems by auto
  then show ?case using Cons.IH [of y] Cons.prems by simp
qed

text \<open>
  C1. Let the head be as constructed for embedding dimension \<open>D \<ge> 1\<close> and context length
  \<open>L\<close>, and the input of shape \<open>(B, T, D)\<close> with \<open>T \<le> L\<close>. Then the first part of
  \<open>AttentionHead.forward\<close> yields an attention weight tensor \<open>w\<close> of shape \<open>(B, T, T)\<close> in
  which, for every batch element and every query position \<open>i\<close>, the weight of every key
  position \<open>j > i\<close> is exactly zero and the weights of the positions \<open>0, ..., i\<close> sum to one
  (in real arithmetic).
\<close>

theorem attention_is_causal:
  assumes "wf_head D hs L h" "shaped3 B T D input" "T \<le> L" "0 < D"
  shows "\<exists>w value. attention_weights h input = Inr (w, value) \<and> shaped3 B T T w \<and>
           (\<forall>b<B. \<forall>i<T. (\<forall>j<T. i < j \<longrightarrow> vals w ! b ! i ! j = 0) \<and>
                          sum_list (take (Suc i) (vals w ! b ! i)) = 1)"
proof -
  obtain w "value" f where w: "attention_weights h input = Inr (w, value)" "shaped3 B T T w"
    and rows: "\<forall>b<B. \<forall>i<T. vals w ! b ! i =
                 softmax (map (\<lambda>j. if i < j then MInf else Fin (f b i j)) [0..<T])"
    using attention_weights_rows [OF assms] by blast
  have "(\<forall>j<T. i < j \<longrightarrow> vals w ! b ! i ! j = 0) \<and> sum_list (take (Suc i) (vals w ! b ! i)) = 1"
    if "b < B" "i < T" for b i
    using rows that softmax_causal_row(2,3) [OF that(2), of "f b i"] by simp
  then show ?thesis using w by blast
qed

theorem attention_is_causal_witness:
  "wf_head 8 4 4 demo_head \<and> shaped3 1 2 8 demo_input \<and> (2::nat) \<le> 4 \<and> (0::nat) < 8 \<and>
   (\<exists>w value. attention_weights demo_head demo_input = Inr (w, value) \<and> shaped3 1 2 2 w \<and>
      (\<forall>b<1. \<forall>i<2. (\<forall>j<2. i < j \<longrightarrow> vals w ! b ! i ! j = 0) \<and>
                     sum_list (take (Suc i) (vals w ! b ! i)) = 1))"
proof -
  have h: "wf_head 8 4 4 demo_head"
    unfolding demo_head_def by (rule wf_head_init)
  have x: "shaped3 1 2 8 demo_input"
    by (simp add: demo_input_def shaped3_def wf3_def)
  show ?thesis
    using h x attention_is_causal [OF h x] by simp
qed

text \<open>
  C7. For a head as constructed for embedding dimension \<open>D \<ge> 1\<close> and any head size \<open>hs\<close>, and
  an input of shape \<open>(B, T, D)\<close>, the scores that \<open>AttentionHead.forward\<close> computes before
  masking are, at every \<open>(b, i, j)\<close>, the dot product of the query of position \<open>i\<close> and the
  key of position \<open>j\<close> times \<open>1 / sqrt D\<close>: the divisor is the embedding dimension, the last
  axis of the input, whatever the head size and the number of heads.
\<close>

theorem scores_scaled_by_dim_embed:
  assumes "wf_head D hs L h" "shaped3 B T D input" "0 < D"
  shows "\<exists>s value. scaled_scores h input = Inr (s, value) \<and> shaped3 B T T s \<and>
           (\<forall>b<B. \<forall>i<T. \<forall>j<T. vals s ! b ! i ! j =
              dot (affine (project_to_query h) (vals input ! b ! i))
                  (affine (project_to_key h) (vals input ! b ! j)) * (1 / sqrt (real D)))"
  using scaled_scores_value [OF assms] by blast

theorem scores_scaled_by_dim_embed_witness:
  "wf_head 8 4 4 demo_head \<and> shaped3 1 2 8 demo_input \<and> (0::nat) < 8 \<and>
   (\<exists>s value. scaled_scores demo_head demo_input = Inr (s, value) \<and> shaped3 1 2 2 s \<and>
      (\<forall>b<1. \<forall>i<2. \<forall>j<2. vals s ! b ! i ! j =
         dot (affine (project_to_query demo_head) (vals demo_input ! b ! i))
             (affine (project_to_key demo_head) (vals demo_input ! b ! j)) * (1 / sqrt (real 8))))"
proof -
  have h: "wf_head 8 4 4 demo_head"
    unfolding demo_head_def by (rule wf_head_init)
  have x: "shaped3 1 2 8 demo_input"
    by (simp add: demo_input_def shaped3_def wf3_def)
  show ?thesis
    using h x scores_scaled_by_dim_embed [OF h x] by simp
qed

section \<open>The language model\<close>

lemma lookup_ok:
  assumes "wf_embedding n d e" "0 \<le> i" "i < int n"
  shows "\<exists>v. lookup e i = Inr v \<and> length v = d"
proof -
  have "nat i < length (table e)" using assms by (simp add: wf_embedding_def)
  then have "table e ! nat i \<in> set (table e)" by simp
  then show ?thesis using assms by (simp add: lookup_def wf_embedding_def)
qed

lemma Embedding_forward2_shaped:
  assumes e: "wf_embedding V D e" and ids: "token_batch V ids"
  shows "\<exists>x. Embedding_forward2 e ids = Inr x \<and> shaped3 (nrows ids) (ncols ids) D x"
proof -
  have "\<exists>y. mapE (lookup e) r = Inr y \<and> (length y = ncols ids \<and> (\<forall>v \<in> set y. length v = D))"
    if "r \<in> set (cells ids)" for r
  proof -
    have "\<exists>v. lookup e i = Inr v \<and> length v = D" if "i \<in> set r" for i
      using lookup_ok [OF e, of i] ids \<open>r \<in> set (cells ids)\<close> that by (auto simp: token_batch_def)
    from mapE_shaped [of r "lookup e" "\<lambda>v. length v = D", OF this]
    obtain y where "mapE (lookup e) r = Inr y" "length y = length r" "\<forall>v \<in> set y. length v = D"
      by blast
    moreover have "length r = ncols ids"
      using ids that by (simp add: token_batch_def wf2_def)
    ultimately show ?thesis by simp
  qed
  from mapE_shaped [of "cells ids" "mapE (lookup e)"
      "\<lambda>y. length y = ncols ids \<and> (\<forall>v \<in> set y. length v = D)", OF this]
  obtain v where v: "mapE (mapE (lookup e)) (cells ids) = Inr v" "length v = length (cells ids)"
    "\<forall>y \<in> set v. length y = ncols ids \<and> (\<forall>v \<in> set y. length v = D)"
    by blast
  have "length (cells ids) = nrows ids" using ids by (simp add: token_batch_def wf2_def)
  moreover have "embedding_dim e = D" using e by (simp add: wf_embedding_def)
  ultimately show ?thesis
    using v by (simp add: Embedding_forward2_def shaped3_def wf3_def)
qed

lemma Embedding_forward1_arange:
  assumes e: "wf_embedding L D e" and T: "T \<le> L"
  shows "\<exists>p. Embedding_forward1 e (torch_arange T) = Inr p \<and> shaped2 T D p"
proof -
  have "\<exists>v. lookup e i = Inr v \<and> length v = D" if "i \<in> set (torch_arange T)" for i
    using lookup_ok [OF e, of i] that T by (auto simp: torch_arange_def)
  from mapE_shaped [of "torch_arange T" "lookup e" "\<lambda>v. length v = D", OF this]
  obtain y where "mapE (lookup e) (torch_arange T) = Inr y" "length y = length (torch_arange T)"
    "\<forall>v \<in> set y. length v = D"
    by blast
  moreover have "embedding_dim e = D" using e by (simp add: wf_embedding_def)
  ultimately show ?thesis
    by (simp add: Embedding_forward1_def shaped2_def wf2_def torch_arange_def)
qed

lemma Embedding_forward1_too_long:
  assumes e: "wf_embedding L D e" and T: "L < T"
  shows "Embedding_forward1 e (torch_arange T) = Inl IndexError"
proof -
  have "mapE (lookup e) (map int [k..<T]) = Inl IndexError" if "k \<le> L" for k
    using that T
  proof (induction "L - k" arbitrary: k)
    case 0
    then have "k = L" by simp
    then have "[k..<T] = L # [Suc L..<T]" using T by (simp add: upt_conv_Cons)
    then show ?case using e by (simp add: lookup_def wf_embedding_def)
  next
    case (Suc n)
    then have k: "k < L" by simp
    then have up: "[k..<T] = k # [Suc k..<T]" using T by (simp add: upt_conv_Cons)
    have "mapE (lookup e) (map int [Suc k..<T]) = Inl IndexError"
      using Suc(1) [of "Suc k"] Suc(2) k T by simp
    then show ?case using e k by (simp add: up lookup_def wf_embedding_def)
  qed
  from this [of 0] show ?thesis
    by (simp add: Embedding_forward1_def torch_arange_def)
qed

lemma forward_logits_shaped:
  assumes m: "wf_llm V D L H N m" and ids: "token_batch V ids" and T: "ncols ids \<le> L"
    and D: "0 < D"
  shows "\<exists>lg. forward_logits m ids = Inr lg \<and> shaped3 (nrows ids) (ncols ids) V lg"
proof -
  obtain te where te: "Embedding_forward2 (token_embedding_table m) ids = Inr te"
    "shaped3 (nrows ids) (ncols ids) D te"
    using Embedding_forward2_shaped [OF _ ids, of D "token_embedding_table m"] m
    by (auto simp: wf_llm_def)
  obtain pe where pe: "Embedding_forward1 (position_embedding_table m) (torch_arange (ncols ids)) = Inr pe"
    "shaped2 (ncols ids) D pe"
    using Embedding_forward1_arange [OF _ T, of D "position_embedding_table m"] m
    by (auto simp: wf_llm_def)
  obtain em where em: "add_broadcast te pe = Inr em" "shaped3 (nrows ids) (ncols ids) D em"
    using add_broadcast_shaped [OF te(2) pe(2)] by blast
  have "\<forall>b \<in> set (transformer_blocks m). wf_block D H L b"
    using m by (simp add: wf_llm_def)
  from blocks_forward_shaped [OF this em(2) T D]
  obtain bl where bl: "foldE TranformerBlock_forward (transformer_blocks m) em = Inr bl"
    "shaped3 (nrows ids) (ncols ids) D bl"
    by blast
  have "wf_layernorm D (layer_norm_final m)" using m by (simp add: wf_llm_def)
  from LayerNorm_forward_shaped [OF this bl(2)]
  obtain nf where nf: "LayerNorm_forward (layer_norm_final m) bl = Inr nf"
    "shaped3 (nrows ids) (ncols ids) D nf"
    by blast
  have "wf_linear D V (llm_project m)" using m by (simp add: wf_llm_def)
  from Linear_forward_shaped [OF this nf(2)]
  show ?thesis
    by (auto simp: forward_logits_def Let_def te(1) pe(1) em(1) bl(1) nf(1))
qed

lemma forward_logits_too_long:
  assumes m: "wf_llm V D L H N m" and ids: "token_batch V ids" and T: "L < ncols ids"
  shows "forward_logits m ids = Inl IndexError"
proof -
  obtain te where te: "Embedding_forward2 (token_embedding_table m) ids = Inr te"
    using Embedding_forward2_shaped [OF _ ids, of D "token_embedding_table m"] m
    by (auto simp: wf_llm_def)
  have "wf_embedding L D (position_embedding_table m)" using m by (simp add: wf_llm_def)
  from Embedding_forward1_too_long [OF this T] show ?thesis
    by (simp add: forward_logits_def Let_def te)
qed

lemma mapE_all_Inr:
  "(\<And>x. x \<in> set xs \<Longrightarrow> f x = Inr (g x)) \<Longrightarrow> mapE f xs = Inr (map g xs)"
  by (induction xs) simp_all

lemma length_concat_uniform:
  "\<forall>r \<in> set xss. length r = m \<Longrightarrow> length (concat xss) = length xss * m"
  by (induction xss) simp_all

lemma view2_shaped:
  assumes "shaped3 B T D x"
  shows "shaped2 (B * T) D (view2 x)"
proof -
  have "length (concat (vals x)) = B * T"
    using assms length_concat_uniform [of "vals x" T] by (simp add: shaped3_def wf3_def)
  moreover have "\<forall>r \<in> set (concat (vals x)). length r = D"
    using assms by (auto simp: shaped3_def wf3_def)
  ultimately show ?thesis
    using assms by (simp add: view2_def shaped2_def wf2_def shaped3_def)
qed

lemma cross_entropy_valid:
  assumes x: "shaped2 n C x" and len: "length target = n"
    and valid: "\<forall>l \<in> set target. 0 \<le> l \<and> l < int C"
  shows "cross_entropy x target reduce =
           Inr (if reduce then Scalar (mean (map2 nll (cells x) target))
                else Vector (map2 nll (cells x) target))"
proof -
  have "example_loss (ncols x) r l = Inr (nll r l)" if "(r, l) \<in> set (zip (cells x) target)" for r l
  proof -
    have "l \<in> set target" using that by (rule set_zip_rightD)
    then have "0 \<le> l" "l < int (ncols x)" using valid x by (auto simp: shaped2_def)
    then show ?thesis by (simp add: example_loss_def ignore_index_def)
  qed
  then have "mapE (\<lambda>(r, l). example_loss (ncols x) r l) (zip (cells x) target) =
      Inr (map (\<lambda>(r, l). nll r l) (zip (cells x) target))"
    by (intro mapE_all_Inr) auto
  moreover have "filter (\<lambda>l. l \<noteq> ignore_index) target = target"
    using valid by (auto simp: ignore_index_def intro!: filter_True)
  moreover have "nrows x = length target" "length (cells x) = n"
    using x len by (simp_all add: shaped2_def wf2_def)
  ultimately show ?thesis
    using len by (simp add: cross_entropy_def mean_def)
qed

lemma forward_with_labels:
  assumes m: "wf_llm V D L H N m" and ids: "token_batch V ids" and T: "ncols ids \<le> L"
    and D: "0 < D" and labels: "token_batch V labels"
    and same: "nrows labels = nrows ids" "ncols labels = ncols ids"
  shows "\<exists>lg losses. forward_logits m ids = Inr lg \<and>
           shaped3 (nrows ids) (ncols ids) V lg \<and>
           length losses = nrows ids * ncols ids \<and>
           losses = map2 nll (concat (vals lg)) (concat (cells labels)) \<and>
           (\<forall>reduce_loss. TutorialLLM_forward m ids (Some labels) reduce_loss =
              Inr (Logits2 (view2 lg),
                   Some (if reduce_loss then Scalar (mean losses) else Vector losses)))"
proof -
  obtain lg where lg: "forward_logits m ids = Inr lg" "shaped3 (nrows ids) (ncols ids) V lg"
    using forward_logits_shaped [OF m ids T D] by blast
  define target where "target = concat (cells labels)"
  define losses where "losses = map2 nll (concat (vals lg)) target"
  have dims: "nbatch lg = nrows ids" "nseq lg = ncols ids" "nfeat lg = V"
    using lg(2) by (simp_all add: shaped3_def)
  have v2: "shaped2 (nrows ids * ncols ids) V (view2 lg)"
    using lg(2) by (rule view2_shaped)
  have lt: "length target = nrows ids * ncols ids"
    using labels same length_concat_uniform [of "cells labels" "ncols labels"]
    by (simp add: target_def token_batch_def wf2_def)
  have valid: "\<forall>l \<in> set target. 0 \<le> l \<and> l < int V"
    using labels by (auto simp: target_def token_batch_def)
  have view: "view1 labels (nrows ids * ncols ids) = Inr target"
    using same by (simp add: view1_def target_def)
  have ce: "cross_entropy (view2 lg) target r =
      Inr (if r then Scalar (mean losses) else Vector losses)" for r
    using cross_entropy_valid [OF v2 lt valid, of r] by (simp add: losses_def view2_def)
  have ll: "length losses = nrows ids * ncols ids"
    using v2 lt by (simp add: losses_def view2_def shaped2_def wf2_def)
  have "TutorialLLM_forward m ids (Some labels) r =
      Inr (Logits2 (view2 lg), Some (if r then Scalar (mean losses) else Vector losses))" for r
    by (simp add: TutorialLLM_forward_def lg(1) Let_def dims view ce)
  then show ?thesis
    using lg ll unfolding losses_def target_def by blast
qed

lemma forward_without_labels:
  assumes m: "wf_llm V D L H N m" and ids: "token_batch V ids" and T: "ncols ids \<le> L"
    and D: "0 < D"
  shows "\<exists>lg. TutorialLLM_forward m ids None reduce_loss = Inr (Logits3 lg, None) \<and>
           shaped3 (nrows ids) (ncols ids) V lg"
  using forward_logits_shaped [OF assms] by (auto simp: TutorialLLM_forward_def)

lemma demo_llm_wf: "wf_llm 5 8 4 2 1 demo_llm"
proof -
  obtain m where m: "TutorialLLM_init 5 8 4 2 1 ''cpu'' zero_rnd = Inr m"
    using llm_init_total [of 2 1 5 8 4 "''cpu''" zero_rnd] by auto
  then have "demo_llm = m" by (simp add: demo_llm_def)
  then show ?thesis using wf_llm_init [OF m] by simp
qed

lemma demo_ids_batch: "token_batch 5 demo_ids" "nrows demo_ids = 1" "ncols demo_ids = 2"
  by (simp_all add: token_batch_def wf2_def demo_ids_def)

lemma demo_labels_batch: "token_batch 5 demo_labels" "nrows demo_labels = 1" "ncols demo_labels = 2"
  by (simp_all add: token_batch_def wf2_def demo_labels_def)

text \<open>
  C4, as the code has it. Let the model be as constructed for a vocabulary of \<open>V\<close> tokens,
  embedding dimension \<open>D \<ge> 1\<close> and context length \<open>L\<close>, and let the token ids have shape
  \<open>(B, T)\<close> with \<open>T \<le> L\<close> and every id in \<open>[0, V)\<close>. Without targets \<open>forward\<close> returns logits
  of shape \<open>(B, T, V)\<close> and no loss. With targets of the same shape it returns the logits
  flattened to shape \<open>(B * T, V)\<close>, and the cross-entropy loss.
\<close>

theorem forward_logits_shapes:
  assumes "wf_llm V D L H N m" "token_batch V ids" "ncols ids \<le> L" "0 < D"
  shows "(\<exists>lg. TutorialLLM_forward m ids None reduce_loss = Inr (Logits3 lg, None) \<and>
              shaped3 (nrows ids) (ncols ids) V lg) \<and>
         (token_batch V labels \<and> nrows labels = nrows ids \<and> ncols labels = ncols ids \<longrightarrow>
            (\<exists>lg loss. TutorialLLM_forward m ids (Some labels) reduce_loss =
                          Inr (Logits2 lg, Some loss) \<and>
                        shaped2 (nrows ids * ncols ids) V lg))"
proof -
  have "\<exists>lg loss. TutorialLLM_forward m ids (Some labels) reduce_loss =
                     Inr (Logits2 lg, Some loss) \<and> shaped2 (nrows ids * ncols ids) V lg"
    if lab: "token_batch V labels" "nrows labels = nrows ids" "ncols labels = ncols ids"
  proof -
    obtain lg losses where "shaped3 (nrows ids) (ncols ids) V lg"
      "TutorialLLM_forward m ids (Some labels) reduce_loss =
         Inr (Logits2 (view2 lg), Some (if reduce_loss then Scalar (mean losses) else Vector losses))"
      using forward_with_labels [OF assms lab] by blast
    then show ?thesis using view2_shaped by blast
  qed
  then show ?thesis
    using forward_without_labels [OF assms] by blast
qed

theorem forward_logits_shapes_witness:
  "wf_llm 5 8 4 2 1 demo_llm \<and> token_batch 5 demo_ids \<and> ncols demo_ids \<le> 4 \<and> (0::nat) < 8 \<and>
   (\<exists>lg. TutorialLLM_forward demo_llm demo_ids None True = Inr (Logits3 lg, None) \<and>
          shaped3 (nrows demo_ids) (ncols demo_ids) 5 lg) \<and>
   token_batch 5 demo_labels \<and> nrows demo_labels = nrows demo_ids \<and>
   ncols demo_labels = ncols demo_ids \<and>
   (\<exists>lg loss. TutorialLLM_forward demo_llm demo_ids (Some demo_labels) True =
                 Inr (Logits2 lg, Some loss) \<and>
               shaped2 (nrows demo_ids * ncols demo_ids) 5 lg)"
proof -
  have T: "ncols demo_ids \<le> 4" by (simp add: demo_ids_batch)
  show ?thesis
    using forward_logits_shapes [OF demo_llm_wf demo_ids_batch(1) T,
        where labels = demo_labels and reduce_loss = True]
      demo_llm_wf demo_ids_batch demo_labels_batch
    by simp
qed

text \<open>
  C4 as stated fails when targets are supplied: for a batch of shape \<open>(1, 2)\<close> and the
  vocabulary size 5 the returned logits have the shape \<open>(2, 5)\<close>, not \<open>(1, 2, 5)\<close>, because
  line 269 reassigns \<open>logits\<close> to its flattened view before line 275 returns it.
\<close>

theorem forward_logits_flattened_counterexample:
  "map_sum id (logits_shape \<circ> fst)
     (TutorialLLM_forward demo_llm demo_ids (Some demo_labels) True) = Inr [2, 5] \<and>
   [nrows demo_ids, ncols demo_ids, 5] = [1, 2, 5]"
proof -
  have T: "ncols demo_ids \<le> 4" by (simp add: demo_ids_batch)
  have same: "nrows demo_labels = nrows demo_ids" "ncols demo_labels = ncols demo_ids"
    by (simp_all add: demo_ids_batch demo_labels_batch)
  obtain lg losses where lg: "shaped3 1 2 5 lg"
    and fw: "TutorialLLM_forward demo_llm demo_ids (Some demo_labels) True =
         Inr (Logits2 (view2 lg), Some (Scalar (mean losses)))"
    using forward_with_labels [OF demo_llm_wf demo_ids_batch(1) T _ demo_labels_batch(1) same]
    by (auto simp: demo_ids_batch)
  have "logits_shape (Logits2 (view2 lg)) = [2, 5]"
    using view2_shaped [OF lg] by (simp add: logits_shape_def shaped2_def)
  then show ?thesis by (simp add: fw demo_ids_batch)
qed

section \<open>Losses\<close>

lemma forward_loss_vector:
  assumes "wf_llm V D L H N m" "token_batch V ids" "ncols ids \<le> L" "0 < D"
    "token_batch V labels" "nrows labels = nrows ids" "ncols labels = ncols ids"
  shows "\<exists>lg losses. TutorialLLM_forward m ids (Some labels) False = Inr (lg, Some (Vector losses)) \<and>
           length losses = nrows ids * ncols ids"
proof -
  obtain lg losses where "length losses = nrows ids * ncols ids"
    "\<forall>r. TutorialLLM_forward m ids (Some labels) r =
       Inr (Logits2 (view2 lg), Some (if r then Scalar (mean losses) else Vector losses))"
    using forward_with_labels [OF assms] by blast
  then show ?thesis by auto
qed

text \<open>
  C6. For a model as constructed, token ids of shape \<open>(B, T)\<close> with \<open>T \<le> L\<close> and targets of
  the same shape, all of them ids of the vocabulary, and at least one position. With the
  flag False \<open>forward\<close> returns the vector \<open>losses\<close> of the \<open>B * T\<close> per-example losses, the
  negative log-likelihoods of the flattened targets under the flattened logits; with the
  flag True it returns the mean of that vector (and the returned logits are the same).
\<close>

theorem reduced_loss_is_mean:
  assumes "wf_llm V D L H N m" "token_batch V ids" "ncols ids \<le> L" "0 < D"
    "token_batch V labels" "nrows labels = nrows ids" "ncols labels = ncols ids"
    "0 < nrows ids * ncols ids"
  shows "\<exists>lg losses.
           forward_logits m ids = Inr lg \<and>
           losses = map2 nll (concat (vals lg)) (concat (cells labels)) \<and>
           length losses = nrows ids * ncols ids \<and> losses \<noteq> [] \<and>
           TutorialLLM_forward m ids (Some labels) False =
             Inr (Logits2 (view2 lg), Some (Vector losses)) \<and>
           TutorialLLM_forward m ids (Some labels) True =
             Inr (Logits2 (view2 lg), Some (Scalar (sum_list losses / real (length losses))))"
proof -
  obtain lg losses where lg: "forward_logits m ids = Inr lg"
    and l: "losses = map2 nll (concat (vals lg)) (concat (cells labels))"
    and len: "length losses = nrows ids * ncols ids"
    and fw: "\<forall>r. TutorialLLM_forward m ids (Some labels) r =
       Inr (Logits2 (view2 lg), Some (if r then Scalar (mean losses) else Vector losses))"
    using forward_with_labels [OF assms(1-7)] by blast
  have "TutorialLLM_forward m ids (Some labels) False =
               Inr (Logits2 (view2 lg), Some (Vector losses))"
    and "TutorialLLM_forward m ids (Some labels) True =
               Inr (Logits2 (view2 lg), Some (Scalar (sum_list losses / real (length losses))))"
    using fw by (simp_all add: mean_def)
  moreover have "losses \<noteq> []" using len assms(8) by auto
  ultimately show ?thesis using lg l len by blast
qed

theorem reduced_loss_is_mean_witness:
  "wf_llm 5 8 4 2 1 demo_llm \<and> token_batch 5 demo_ids \<and> ncols demo_ids \<le> 4 \<and> (0::nat) < 8 \<and>
   token_batch 5 demo_labels \<and> nrows demo_labels = nrows demo_ids \<and>
   ncols demo_labels = ncols demo_ids \<and> 0 < nrows demo_ids * ncols demo_ids \<and>
   (\<exists>lg losses.
      forward_logits demo_llm demo_ids = Inr lg \<and>
      losses = map2 nll (concat (vals lg)) (concat (cells demo_labels)) \<and>
      length losses = nrows demo_ids * ncols demo_ids \<and> losses \<noteq> [] \<and>
      TutorialLLM_forward demo_llm demo_ids (Some demo_labels) False =
        Inr (Logits2 (view2 lg), Some (Vector losses)) \<and>
      TutorialLLM_forward demo_llm demo_ids (Some demo_labels) True =
        Inr (Logits2 (view2 lg), Some (Scalar (sum_list losses / real (length losses)))))"
proof -
  have T: "ncols demo_ids \<le> 4" and D: "(0::nat) < 8"
    and same: "nrows demo_labels = nrows demo_ids" "ncols demo_labels = ncols demo_ids"
    and pos: "0 < nrows demo_ids * ncols demo_ids"
    by (simp_all add: demo_ids_batch demo_labels_batch)
  show ?thesis
    using reduced_loss_is_mean [OF demo_llm_wf demo_ids_batch(1) T D demo_labels_batch(1) same pos]
      demo_llm_wf demo_ids_batch(1) demo_labels_batch(1) T same pos
    by simp
qed

lemma demo_dpo_models: "aligned_model demo_dpo = demo_llm" "reference_model demo_dpo = demo_llm"
  "negative_weight demo_dpo = 1 - positive_weight demo_dpo"
  by (simp_all add: demo_dpo_def DpoWrapper_init_def)

lemma dpo_losses_vectors:
  assumes "wf_llm V D L H N (aligned_model w)" "wf_llm V D L H N (reference_model w)" "0 < D"
    and "token_batch V pos" "ncols pos \<le> L"
    and "token_batch V pos_labels" "nrows pos_labels = nrows pos" "ncols pos_labels = ncols pos"
    and "token_batch V neg" "ncols neg \<le> L"
    and "token_batch V neg_labels" "nrows neg_labels = nrows neg" "ncols neg_labels = ncols neg"
  shows "\<exists>l1 l2 l3 l4 ap an rp rn.
           TutorialLLM_forward (aligned_model w) pos (Some pos_labels) False =
             Inr (l1, Some (Vector ap)) \<and> length ap = nrows pos * ncols pos \<and>
           TutorialLLM_forward (aligned_model w) neg (Some neg_labels) False =
             Inr (l2, Some (Vector an)) \<and> length an = nrows neg * ncols neg \<and>
           TutorialLLM_forward (reference_model w) pos (Some pos_labels) False =
             Inr (l3, Some (Vector rp)) \<and> length rp = nrows pos * ncols pos \<and>
           TutorialLLM_forward (reference_model w) neg (Some neg_labels) False =
             Inr (l4, Some (Vector rn)) \<and> length rn = nrows neg * ncols neg \<and>
           dpo_losses w pos pos_labels neg neg_labels =
             Inr (Some (Vector ap), Some (Vector an), Some (Vector rp), Some (Vector rn))"
proof -
  obtain l1 ap where ap: "TutorialLLM_forward (aligned_model w) pos (Some pos_labels) False =
      Inr (l1, Some (Vector ap))" "length ap = nrows pos * ncols pos"
    using forward_loss_vector [OF assms(1,4,5,3,6,7,8)] by blast
  obtain l2 an where an: "TutorialLLM_forward (aligned_model w) neg (Some neg_labels) False =
      Inr (l2, Some (Vector an))" "length an = nrows neg * ncols neg"
    using forward_loss_vector [OF assms(1,9,10,3,11,12,13)] by blast
  obtain l3 rp where rp: "TutorialLLM_forward (reference_model w) pos (Some pos_labels) False =
      Inr (l3, Some (Vector rp))" "length rp = nrows pos * ncols pos"
    using forward_loss_vector [OF assms(2,4,5,3,6,7,8)] by blast
  obtain l4 rn where rn: "TutorialLLM_forward (reference_model w) neg (Some neg_labels) False =
      Inr (l4, Some (Vector rn))" "length rn = nrows neg * ncols neg"
    using forward_loss_vector [OF assms(2,9,10,3,11,12,13)] by blast
  have "dpo_losses w pos pos_labels neg neg_labels =
      Inr (Some (Vector ap), Some (Vector an), Some (Vector rp), Some (Vector rn))"
    by (simp add: dpo_losses_def ap(1) an(1) rp(1) rn(1))
  then show ?thesis using ap an rp rn by blast
qed

text \<open>
  C5, as the code has it. The first part of \<open>DpoWrapper.forward\<close>, its four forward passes
  (aligned model on the positive pair, aligned model on the negative pair, reference
  model on the positive pair, reference model on the negative pair), yields four vectors
  of losses with one value for every token position of the batch, \<open>B * T\<close> values for a
  batch of shape \<open>(B, T)\<close>: each is the loss vector of \<open>forward\<close> with the flag False, on the
  flattened batch. The result of \<open>DpoWrapper.forward\<close> is computed from these four vectors.
\<close>

theorem dpo_losses_per_token:
  assumes "wf_llm V D L H N (aligned_model w)" "wf_llm V D L H N (reference_model w)" "0 < D"
    and "token_batch V pos" "ncols pos \<le> L"
    and "token_batch V pos_labels" "nrows pos_labels = nrows pos" "ncols pos_labels = ncols pos"
    and "token_batch V neg" "ncols neg \<le> L"
    and "token_batch V neg_labels" "nrows neg_labels = nrows neg" "ncols neg_labels = ncols neg"
  shows "\<exists>ap an rp rn.
           dpo_losses w pos pos_labels neg neg_labels =
             Inr (Some (Vector ap), Some (Vector an), Some (Vector rp), Some (Vector rn)) \<and>
           length ap = nrows pos * ncols pos \<and> length an = nrows neg * ncols neg \<and>
           length rp = nrows pos * ncols pos \<and> length rn = nrows neg * ncols neg \<and>
           map_sum id snd (TutorialLLM_forward (aligned_model w) pos (Some pos_labels) False) =
             Inr (Some (Vector ap)) \<and>
           map_sum id snd (TutorialLLM_forward (aligned_model w) neg (Some neg_labels) False) =
             Inr (Some (Vector an)) \<and>
           map_sum id snd (TutorialLLM_forward (reference_model w) pos (Some pos_labels) False) =
             Inr (Some (Vector rp)) \<and>
           map_sum id snd (TutorialLLM_forward (reference_model w) neg (Some neg_labels) False) =
             Inr (Some (Vector rn)) \<and>
           DpoWrapper_forward w pos pos_labels neg neg_labels =
             dpo_objective w (Some (Vector ap), Some (Vector an), Some (Vector rp), Some (Vector rn))"
proof -
  obtain l1 l2 l3 l4 ap an rp rn where
    "TutorialLLM_forward (aligned_model w) pos (Some pos_labels) False = Inr (l1, Some (Vector ap))"
    "length ap = nrows pos * ncols pos"
    "TutorialLLM_forward (aligned_model w) neg (Some neg_labels) False = Inr (l2, Some (Vector an))"
    "length an = nrows neg * ncols neg"
    "TutorialLLM_forward (reference_model w) pos (Some pos_labels) False = Inr (l3, Some (Vector rp))"
    "length rp = nrows pos * ncols pos"
    "TutorialLLM_forward (reference_model w) neg (Some neg_labels) False = Inr (l4, Some (Vector rn))"
    "length rn = nrows neg * ncols neg"
    "dpo_losses w pos pos_labels neg neg_labels =
       Inr (Some (Vector ap), Some (Vector an), Some (Vector rp), Some (Vector rn))"
    using dpo_losses_vectors [OF assms] by blast
  then show ?thesis
    by (intro exI [of _ ap] exI [of _ an] exI [of _ rp] exI [of _ rn])
      (simp add: DpoWrapper_forward_def)
qed

theorem dpo_losses_per_token_witness:
  "wf_llm 5 8 4 2 1 (aligned_model demo_dpo) \<and> wf_llm 5 8 4 2 1 (reference_model demo_dpo) \<and>
   (0::nat) < 8 \<and> token_batch 5 demo_ids \<and> ncols demo_ids \<le> 4 \<and>
   token_batch 5 demo_labels \<and> nrows demo_labels = nrows demo_ids \<and>
   ncols demo_labels = ncols demo_ids \<and>
   (\<exists>ap an rp rn.
      dpo_losses demo_dpo demo_ids demo_labels demo_ids demo_labels =
        Inr (Some (Vector ap), Some (Vector an), Some (Vector rp), Some (Vector rn)) \<and>
      length ap = nrows demo_ids * ncols demo_ids \<and> length an = nrows demo_ids * ncols demo_ids \<and>
      length rp = nrows demo_ids * ncols demo_ids \<and> length rn = nrows demo_ids * ncols demo_ids \<and>
      map_sum id snd (TutorialLLM_forward (aligned_model demo_dpo) demo_ids (Some demo_labels) False) =
        Inr (Some (Vector ap)) \<and>
      map_sum id snd (TutorialLLM_forward (aligned_model demo_dpo) demo_ids (Some demo_labels) False) =
        Inr (Some (Vector an)) \<and>
      map_sum id snd (TutorialLLM_forward (reference_model demo_dpo) demo_ids (Some demo_labels) False) =
        Inr (Some (Vector rp)) \<and>
      map_sum id snd (TutorialLLM_forward (reference_model demo_dpo) demo_ids (Some demo_labels) False) =
        Inr (Some (Vector rn)) \<and>
      DpoWrapper_forward demo_dpo demo_ids demo_labels demo_ids demo_labels =
        dpo_objective demo_dpo
          (Some (Vector ap), Some (Vector an), Some (Vector rp), Some (Vector rn)))"
proof -
  have wa: "wf_llm 5 8 4 2 1 (aligned_model demo_dpo)"
    and wr: "wf_llm 5 8 4 2 1 (reference_model demo_dpo)"
    using demo_llm_wf by (simp_all add: demo_dpo_models)
  have T: "ncols demo_ids \<le> 4" and D: "(0::nat) < 8"
    and same: "nrows demo_labels = nrows demo_ids" "ncols demo_labels = ncols demo_ids"
    by (simp_all add: demo_ids_batch demo_labels_batch)
  show ?thesis
    using dpo_losses_per_token [OF wa wr D demo_ids_batch(1) T demo_labels_batch(1) same
        demo_ids_batch(1) T demo_labels_batch(1) same]
      wa wr demo_ids_batch(1) demo_labels_batch(1) T same
    by simp
qed

text \<open>
  C5 as stated fails: for a positive and a negative batch of one sequence (\<open>B = 1\<close>) of two
  tokens, each of the four losses that \<open>DpoWrapper.forward\<close> computes has two values, not
  one.
\<close>

theorem dpo_losses_per_token_counterexample:
  "map_sum id loss_sizes (dpo_losses demo_dpo demo_ids demo_labels demo_ids demo_labels) =
     Inr [Some 2, Some 2, Some 2, Some 2] \<and>
   nrows demo_ids = 1 \<and>
   DpoWrapper_forward demo_dpo demo_ids demo_labels demo_ids demo_labels =
     bindE (dpo_losses demo_dpo demo_ids demo_labels demo_ids demo_labels)
       (dpo_objective demo_dpo)"
proof -
  have wa: "wf_llm 5 8 4 2 1 (aligned_model demo_dpo)"
    and wr: "wf_llm 5 8 4 2 1 (reference_model demo_dpo)"
    using demo_llm_wf by (simp_all add: demo_dpo_models)
  have T: "ncols demo_ids \<le> 4" and D: "(0::nat) < 8"
    and same: "nrows demo_labels = nrows demo_ids" "ncols demo_labels = ncols demo_ids"
    by (simp_all add: demo_ids_batch demo_labels_batch)
  obtain ap an rp rn where
    "dpo_losses demo_dpo demo_ids demo_labels demo_ids demo_labels =
       Inr (Some (Vector ap), Some (Vector an), Some (Vector rp), Some (Vector rn))"
    "length ap = nrows demo_ids * ncols demo_ids" "length an = nrows demo_ids * ncols demo_ids"
    "length rp = nrows demo_ids * ncols demo_ids" "length rn = nrows demo_ids * ncols demo_ids"
    using dpo_losses_vectors [OF wa wr D demo_ids_batch(1) T demo_labels_batch(1) same
        demo_ids_batch(1) T demo_labels_batch(1) same]
    by blast
  then show ?thesis
    by (simp add: loss_sizes_def numel_def demo_ids_batch DpoWrapper_forward_def)
qed

lemma weighted_margin:
  fixes ap an rp rn :: "real list"
  assumes "length ap = n" "length an = n" "length rp = n" "length rn = n"
  shows "map2 (+) (map (\<lambda>r. pw * r) (map2 (-) rp ap)) (map (\<lambda>r. nw * r) (map2 (-) an rn)) =
         map (\<lambda>i. pw * (rp ! i - ap ! i) + nw * (an ! i - rn ! i)) [0..<n]"
  using assms by (auto intro!: nth_equalityI)

text \<open>
  C2. Let both models of the wrapper be as constructed, the negative weight be one minus
  the positive weight (as \<open>__init__\<close> sets it), and the positive and the negative batch
  and their targets all have the same shape \<open>(B, T)\<close>. With the loss vectors \<open>ap\<close>, \<open>an\<close> of
  the aligned model and \<open>rp\<close>, \<open>rn\<close> of the reference model on the positive and the negative
  pair, \<open>DpoWrapper.forward\<close> returns the pair of \<open>- mean (logsigmoid (beta * margin))\<close> and
  \<open>mean margin\<close>, where \<open>margin = positive_weight * (rp - ap) + (1 - positive_weight) * (an - rn)\<close>
  elementwise.
\<close>

theorem dpo_loss_formula:
  assumes "wf_llm V D L H N (aligned_model w)" "wf_llm V D L H N (reference_model w)" "0 < D"
    and "negative_weight w = 1 - positive_weight w"
    and "token_batch V pos" "ncols pos \<le> L"
    and "token_batch V pos_labels" "nrows pos_labels = nrows pos" "ncols pos_labels = ncols pos"
    and "token_batch V neg" "nrows neg = nrows pos" "ncols neg = ncols pos"
    and "token_batch V neg_labels" "nrows neg_labels = nrows pos" "ncols neg_labels = ncols pos"
  shows "\<exists>ap an rp rn.
           map_sum id snd (TutorialLLM_forward (aligned_model w) pos (Some pos_labels) False) =
             Inr (Some (Vector ap)) \<and>
           map_sum id snd (TutorialLLM_forward (aligned_model w) neg (Some neg_labels) False) =
             Inr (Some (Vector an)) \<and>
           map_sum id snd (TutorialLLM_forward (reference_model w) pos (Some pos_labels) False) =
             Inr (Some (Vector rp)) \<and>
           map_sum id snd (TutorialLLM_forward (reference_model w) neg (Some neg_labels) False) =
             Inr (Some (Vector rn)) \<and>
           DpoWrapper_forward w pos pos_labels neg neg_labels =
             (let reward_margin =
                map (\<lambda>i. positive_weight w * (rp ! i - ap ! i) +
                         (1 - positive_weight w) * (an ! i - rn ! i))
                  [0..<nrows pos * ncols pos]
              in Inr (- mean (map (\<lambda>r. logsigmoid (beta w * r)) reward_margin),
                      mean reward_margin))"
proof -
  define n where "n = nrows pos * ncols pos"
  have negL: "ncols neg \<le> L" and negl: "nrows neg_labels = nrows neg" "ncols neg_labels = ncols neg"
    using assms by simp_all
  obtain l1 ap where ap: "TutorialLLM_forward (aligned_model w) pos (Some pos_labels) False =
      Inr (l1, Some (Vector ap))" "length ap = n"
    using forward_loss_vector [OF assms(1,5,6,3,7,8,9)] unfolding n_def by blast
  obtain l2 an where an: "TutorialLLM_forward (aligned_model w) neg (Some neg_labels) False =
      Inr (l2, Some (Vector an))" "length an = n"
    using forward_loss_vector [OF assms(1,10) negL assms(3,13) negl] assms(11,12)
    unfolding n_def by auto
  obtain l3 rp where rp: "TutorialLLM_forward (reference_model w) pos (Some pos_labels) False =
      Inr (l3, Some (Vector rp))" "length rp = n"
    using forward_loss_vector [OF assms(2,5,6,3,7,8,9)] unfolding n_def by blast
  obtain l4 rn where rn: "TutorialLLM_forward (reference_model w) neg (Some neg_labels) False =
      Inr (l4, Some (Vector rn))" "length rn = n"
    using forward_loss_vector [OF assms(2,10) negL assms(3,13) negl] assms(11,12)
    unfolding n_def by auto
  have "DpoWrapper_forward w pos pos_labels neg neg_labels =
      (let reward_margin =
         map (\<lambda>i. positive_weight w * (rp ! i - ap ! i) +
                  (1 - positive_weight w) * (an ! i - rn ! i)) [0..<n]
       in Inr (- mean (map (\<lambda>r. logsigmoid (beta w * r)) reward_margin), mean reward_margin))"
    using weighted_margin [of ap n an rp rn "positive_weight w" "1 - positive_weight w"]
    by (simp add: DpoWrapper_forward_def dpo_losses_def dpo_objective_def ap rp an rn t_sub_def
        broadcast2_def t_add_def t_map_def t_mean_def Let_def assms(4) comp_def)
  then show ?thesis
    using ap(1) an(1) rp(1) rn(1) unfolding n_def by simp
qed

theorem dpo_loss_formula_witness:
  "wf_llm 5 8 4 2 1 (aligned_model demo_dpo) \<and> wf_llm 5 8 4 2 1 (reference_model demo_dpo) \<and>
   (0::nat) < 8 \<and> negative_weight demo_dpo = 1 - positive_weight demo_dpo \<and>
   token_batch 5 demo_ids \<and> ncols demo_ids \<le> 4 \<and>
   token_batch 5 demo_labels \<and> nrows demo_labels = nrows demo_ids \<and>
   ncols demo_labels = ncols demo_ids \<and>
   (\<exists>ap an rp rn.
      map_sum id snd (TutorialLLM_forward (aligned_model demo_dpo) demo_ids (Some demo_labels) False) =
        Inr (Some (Vector ap)) \<and>
      map_sum id snd (TutorialLLM_forward (aligned_model demo_dpo) demo_ids (Some demo_labels) False) =
        Inr (Some (Vector an)) \<and>
      map_sum id snd (TutorialLLM_forward (reference_model demo_dpo) demo_ids (Some demo_labels) False) =
        Inr (Some (Vector rp)) \<and>
      map_sum id snd (TutorialLLM_forward (reference_model demo_dpo) demo_ids (Some demo_labels) False) =
        Inr (Some (Vector rn)) \<and>
      DpoWrapper_forward demo_dpo demo_ids demo_labels demo_ids demo_labels =
        (let reward_margin =
           map (\<lambda>i. positive_weight demo_dpo * (rp ! i - ap ! i) +
                    (1 - positive_weight demo_dpo) * (an ! i - rn ! i))
             [0..<nrows demo_ids * ncols demo_ids]
         in Inr (- mean (map (\<lambda>r. logsigmoid (beta demo_dpo * r)) reward_margin),
                 mean reward_margin)))"
proof -
  have wa: "wf_llm 5 8 4 2 1 (aligned_model demo_dpo)"
    and wr: "wf_llm 5 8 4 2 1 (reference_model demo_dpo)"
    using demo_llm_wf by (simp_all add: demo_dpo_models)
  have T: "ncols demo_ids \<le> 4" and D: "(0::nat) < 8"
    and same: "nrows demo_labels = nrows demo_ids" "ncols demo_labels = ncols demo_ids"
    and refl: "nrows demo_ids = nrows demo_ids" "ncols demo_ids = ncols demo_ids"
    by (simp_all add: demo_ids_batch demo_labels_batch)
  show ?thesis
    using dpo_loss_formula [OF wa wr D demo_dpo_models(3) demo_ids_batch(1) T
        demo_labels_batch(1) same demo_ids_batch(1) refl demo_labels_batch(1) same]
      wa wr demo_dpo_models(3) demo_ids_batch(1) demo_labels_batch(1) T same
    by simp
qed

section \<open>Generation: bounds, stopping and the context window\<close>

lemma slice_last_cols_batch:
  assumes "token_batch V ids" "0 < L"
  shows "token_batch V (slice_last_cols L ids)"
    and "nrows (slice_last_cols L ids) = nrows ids"
    and "ncols (slice_last_cols L ids) = min L (ncols ids)"
proof -
  have "length (drop (length r - L) r) = min L (ncols ids)" if "r \<in> set (cells ids)" for r
    using assms that by (auto simp: token_batch_def wf2_def)
  moreover have "0 \<le> i \<and> i < int V"
    if "r \<in> set (cells ids)" "i \<in> set (drop (length r - L) r)" for r i
    using assms that by (auto simp: token_batch_def dest: in_set_dropD)
  ultimately show "token_batch V (slice_last_cols L ids)"
    using assms by (auto simp: slice_last_cols_def token_batch_def wf2_def)
  show "nrows (slice_last_cols L ids) = nrows ids" "ncols (slice_last_cols L ids) = min L (ncols ids)"
    using assms by (simp_all add: slice_last_cols_def)
qed

lemma token_batch_vocab:
  assumes "token_batch V ids" "0 < nrows ids" "0 < ncols ids"
  shows "0 < V"
proof -
  obtain r where r: "r \<in> set (cells ids)"
    using assms by (cases "cells ids") (auto simp: token_batch_def wf2_def)
  then have "length r = ncols ids" using assms by (simp add: token_batch_def wf2_def)
  then obtain i where "i \<in> set r" using assms(3) by (cases r) auto
  then have "0 \<le> i \<and> i < int V" using assms r by (auto simp: token_batch_def)
  then show ?thesis by simp
qed

lemma select_last_shaped:
  assumes "shaped3 B T V lg" "0 < T"
  shows "\<exists>s. select_last (Logits3 lg) = Inr s \<and> shaped2 B V s"
proof -
  have "length (last mx) = V" if "mx \<in> set (vals lg)" for mx
  proof -
    have "length mx = T" "\<forall>v \<in> set mx. length v = V"
      using assms that by (auto simp: shaped3_def wf3_def)
    then have "last mx \<in> set mx" using assms(2) by (cases mx) auto
    then show ?thesis using \<open>\<forall>v \<in> set mx. length v = V\<close> by simp
  qed
  then show ?thesis
    using assms by (auto simp: select_last_def shaped3_def shaped2_def wf2_def wf3_def)
qed

lemma softmax2_shaped: "shaped2 B V s \<Longrightarrow> shaped2 B V (softmax2 s)"
  by (auto simp: softmax2_def shaped2_def wf2_def)

lemma multinomial_shaped:
  assumes p: "shaped2 B V probs" and V: "0 < V"
  shows "\<exists>idx. multinomial draw probs = Inr idx \<and> shaped2 B 1 idx \<and>
           length (concat (cells idx)) = B \<and>
           (B = 1 \<longrightarrow> cells idx = [[int (draw 0 (hd (cells probs)))]]) \<and>
           ((\<forall>b q. q \<noteq> [] \<longrightarrow> draw b q < length q) \<longrightarrow>
              (\<forall>r \<in> set (cells idx). \<forall>t \<in> set r. 0 \<le> t \<and> t < int V))"
proof -
  define idx where "idx = \<lparr>nrows = B, ncols = 1,
     cells = map (\<lambda>(b, q). [int (draw b q)]) (enumerate 0 (cells probs))\<rparr>"
  have eq: "multinomial draw probs = Inr idx"
    using p V by (simp add: multinomial_def idx_def shaped2_def)
  have len: "length (cells probs) = B" and rows: "\<forall>q \<in> set (cells probs). length q = V"
    using p by (simp_all add: shaped2_def wf2_def)
  have sh: "shaped2 B 1 idx"
    using len by (auto simp: idx_def shaped2_def wf2_def)
  have "length (concat (cells idx)) = length (cells idx) * 1"
    by (rule length_concat_uniform) (auto simp: idx_def)
  then have lc: "length (concat (cells idx)) = B"
    using len by (simp add: idx_def)
  have one: "cells idx = [[int (draw 0 (hd (cells probs)))]]" if B1: "B = 1"
  proof -
    obtain q where "cells probs = [q]"
      using len B1 by (cases "cells probs") auto
    then show ?thesis by (simp add: idx_def)
  qed
  have valid: "\<forall>r \<in> set (cells idx). \<forall>t \<in> set r. 0 \<le> t \<and> t < int V"
    if "\<forall>b q. q \<noteq> [] \<longrightarrow> draw b q < length q"
  proof -
    have "draw b q < V" if "(b, q) \<in> set (enumerate 0 (cells probs))" for b q
    proof -
      have "q \<in> set (cells probs)" using that by (auto simp: in_set_enumerate_eq)
      then have "length q = V" using rows by simp
      then show ?thesis using \<open>\<forall>b q. q \<noteq> [] \<longrightarrow> draw b q < length q\<close> V by force
    qed
    then show ?thesis by (auto simp: idx_def)
  qed
  show ?thesis using eq sh lc one valid by blast
qed

lemma generate_step_trace:
  assumes m: "wf_llm V D L H N m" and D: "0 < D" and L: "0 < L"
    and ids: "token_batch V ids" and B: "0 < nrows ids" and T: "0 < ncols ids"
  shows "\<exists>lg s idx.
           TutorialLLM_forward m (slice_last_cols (max_length m) ids) None True =
             Inr (Logits3 lg, None) \<and>
           select_last (Logits3 lg) = Inr s \<and>
           multinomial (rng k) (softmax2 s) = Inr idx \<and>
           shaped2 (nrows ids) 1 idx \<and> length (concat (cells idx)) = nrows ids \<and>
           (valid_rng rng \<longrightarrow> (\<forall>r \<in> set (cells idx). \<forall>t \<in> set r. 0 \<le> t \<and> t < int V)) \<and>
           generate_loop m rng k ids (Suc n) =
             bindE (cat_cols ids idx) (\<lambda>token_ids.
             bindE (item idx) (\<lambda>v.
             if v = 0 then Inr token_ids else generate_loop m rng (Suc k) token_ids n))"
proof -
  define av where "av = slice_last_cols (max_length m) ids"
  have ml: "max_length m = L" using m by (simp add: wf_llm_def)
  have av: "token_batch V av" "nrows av = nrows ids" "ncols av = min L (ncols ids)"
    unfolding av_def ml using slice_last_cols_batch [OF ids L] by simp_all
  have avL: "ncols av \<le> L" and avT: "0 < ncols av" using av(3) L T by simp_all
  obtain lg where lg: "TutorialLLM_forward m av None True = Inr (Logits3 lg, None)"
    "shaped3 (nrows ids) (ncols av) V lg"
    using forward_without_labels [OF m av(1) avL D, of True] av(2) by auto
  obtain s where s: "select_last (Logits3 lg) = Inr s" "shaped2 (nrows ids) V s"
    using select_last_shaped [OF lg(2) avT] by blast
  have V: "0 < V" using token_batch_vocab [OF ids B T] .
  obtain idx where idx: "multinomial (rng k) (softmax2 s) = Inr idx" "shaped2 (nrows ids) 1 idx"
    "length (concat (cells idx)) = nrows ids"
    "(\<forall>b q. q \<noteq> [] \<longrightarrow> rng k b q < length q) \<longrightarrow>
       (\<forall>r \<in> set (cells idx). \<forall>t \<in> set r. 0 \<le> t \<and> t < int V)"
    using multinomial_shaped [OF softmax2_shaped [OF s(2)] V, of "rng k"] by blast
  have "generate_loop m rng k ids (Suc n) =
          bindE (cat_cols ids idx) (\<lambda>token_ids.
          bindE (item idx) (\<lambda>v.
          if v = 0 then Inr token_ids else generate_loop m rng (Suc k) token_ids n))"
    using lg(1) s(1) idx(1) by (simp add: av_def Let_def)
  moreover have "valid_rng rng \<longrightarrow> (\<forall>r \<in> set (cells idx). \<forall>t \<in> set r. 0 \<le> t \<and> t < int V)"
    using idx(4) by (simp add: valid_rng_def)
  ultimately show ?thesis
    using lg(1) s(1) idx(1,2,3) unfolding av_def by blast
qed

lemma generate_step:
  assumes "wf_llm V D L H N m" "0 < D" "0 < L" "token_batch V ids" "0 < nrows ids" "0 < ncols ids"
  shows "\<exists>idx. shaped2 (nrows ids) 1 idx \<and> length (concat (cells idx)) = nrows ids \<and>
           (valid_rng rng \<longrightarrow> (\<forall>r \<in> set (cells idx). \<forall>t \<in> set r. 0 \<le> t \<and> t < int V)) \<and>
           generate_loop m rng k ids (Suc n) =
             bindE (cat_cols ids idx) (\<lambda>token_ids.
             bindE (item idx) (\<lambda>v.
             if v = 0 then Inr token_ids else generate_loop m rng (Suc k) token_ids n))"
  using generate_step_trace [OF assms, of rng k n] by blast

lemma unsqueeze0_batch:
  assumes "\<forall>t \<in> set row. 0 \<le> t \<and> t < int V"
  shows "token_batch V (unsqueeze0 row)"
  using assms by (simp add: token_batch_def wf2_def unsqueeze0_def)

lemma unsqueeze0_ids:
  "token_batch V (unsqueeze0 row) \<Longrightarrow> \<forall>t \<in> set row. 0 \<le> t \<and> t < int V"
  by (simp add: token_batch_def unsqueeze0_def)

lemma shaped2_one_cell:
  assumes "shaped2 1 1 idx"
  shows "\<exists>tok. cells idx = [[tok]]"
proof -
  have "length (cells idx) = Suc 0"
    using assms by (simp add: shaped2_def wf2_def)
  then obtain r where r: "cells idx = [r]"
    by (auto simp: length_Suc_conv)
  have "r \<in> set (cells idx)" by (simp add: r)
  then have "length r = Suc 0"
    using assms unfolding shaped2_def wf2_def by simp
  then obtain tok where "r = [tok]"
    by (auto simp: length_Suc_conv)
  then show ?thesis using r by simp
qed

lemma generate_loop_row:
  assumes m: "wf_llm V D L H N m" and D: "0 < D" and L: "0 < L" and rng: "valid_rng rng"
    and row: "row \<noteq> []" "\<forall>t \<in> set row. 0 \<le> t \<and> t < int V"
  shows "\<exists>g. generate_loop m rng k (unsqueeze0 row) n = Inr (unsqueeze0 (row @ g)) \<and>
           length g \<le> n \<and> 0 \<notin> set (butlast g) \<and> (length g < n \<longrightarrow> g \<noteq> [] \<and> last g = 0) \<and>
           (\<forall>t \<in> set g. 0 \<le> t \<and> t < int V) \<and>
           (\<forall>j<length g. \<exists>lg s.
              TutorialLLM_forward m
                (slice_last_cols (max_length m) (unsqueeze0 (row @ take j g))) None True =
                Inr (Logits3 lg, None) \<and>
              select_last (Logits3 lg) = Inr s \<and>
              multinomial (rng (k + j)) (softmax2 s) = Inr (unsqueeze0 [g ! j]))"
  using row
proof (induction n arbitrary: k row)
  case 0
  show ?case by (rule exI [of _ "[]"]) simp
next
  case (Suc n)
  define P where "P = (\<lambda>k' row' tok'. \<exists>lg s.
      TutorialLLM_forward m (slice_last_cols (max_length m) (unsqueeze0 row')) None True =
        Inr (Logits3 lg, None) \<and>
      select_last (Logits3 lg) = Inr s \<and>
      multinomial (rng k') (softmax2 s) = Inr (unsqueeze0 [tok']))"
  have ids: "token_batch V (unsqueeze0 row)"
    using Suc.prems(2) by (rule unsqueeze0_batch)
  have nr: "nrows (unsqueeze0 row) = 1" by (simp add: unsqueeze0_def)
  have B: "0 < nrows (unsqueeze0 row)" and T: "0 < ncols (unsqueeze0 row)"
    using Suc.prems(1) by (simp_all add: unsqueeze0_def)
  obtain lg s idx where
    fw: "TutorialLLM_forward m (slice_last_cols (max_length m) (unsqueeze0 row)) None True =
           Inr (Logits3 lg, None)"
    and sl: "select_last (Logits3 lg) = Inr s"
    and mn: "multinomial (rng k) (softmax2 s) = Inr idx"
    and idx: "shaped2 1 1 idx"
      "\<forall>r \<in> set (cells idx). \<forall>t \<in> set r. 0 \<le> t \<and> t < int V"
    and step: "generate_loop m rng k (unsqueeze0 row) (Suc n) =
             bindE (cat_cols (unsqueeze0 row) idx) (\<lambda>token_ids.
             bindE (item idx) (\<lambda>v.
             if v = 0 then Inr token_ids else generate_loop m rng (Suc k) token_ids n))"
    using generate_step_trace [OF m D L ids B T, of rng k n] rng unfolding nr by blast
  obtain tok where tok: "cells idx = [[tok]]"
    using shaped2_one_cell [OF idx(1)] by blast
  have idx_eq: "idx = unsqueeze0 [tok]"
    using idx(1) tok by (cases idx) (simp add: unsqueeze0_def shaped2_def)
  have P0: "P k row tok"
    unfolding P_def using fw sl mn idx_eq by blast
  have tv: "0 \<le> tok \<and> tok < int V" using idx(2) tok by simp
  have cat: "cat_cols (unsqueeze0 row) idx = Inr (unsqueeze0 (row @ [tok]))"
    using idx(1) tok by (simp add: cat_cols_def unsqueeze0_def shaped2_def)
  have it: "item idx = Inr tok" by (simp add: item_def tok)
  have eq: "generate_loop m rng k (unsqueeze0 row) (Suc n) =
      (if tok = 0 then Inr (unsqueeze0 (row @ [tok]))
       else generate_loop m rng (Suc k) (unsqueeze0 (row @ [tok])) n)"
    by (simp add: step cat it del: generate_loop.simps)
  show ?case
  proof (cases "tok = 0")
    case True
    have tr: "\<forall>j<length [tok]. P (k + j) (row @ take j [tok]) ([tok] ! j)"
      using P0 by simp
    have "generate_loop m rng k (unsqueeze0 row) (Suc n) = Inr (unsqueeze0 (row @ [tok])) \<and>
        length [tok] \<le> Suc n \<and> 0 \<notin> set (butlast [tok]) \<and>
        (length [tok] < Suc n \<longrightarrow> [tok] \<noteq> [] \<and> last [tok] = 0) \<and>
        (\<forall>t \<in> set [tok]. 0 \<le> t \<and> t < int V)"
      using True eq tv by simp
    then show ?thesis
      using tr unfolding P_def by (intro exI [of _ "[tok]"]) blast
  next
    case False
    have "row @ [tok] \<noteq> []" "\<forall>t \<in> set (row @ [tok]). 0 \<le> t \<and> t < int V"
      using Suc.prems(2) tv by auto
    from Suc.IH [OF this, of "Suc k"]
    obtain g where g: "generate_loop m rng (Suc k) (unsqueeze0 (row @ [tok])) n =
        Inr (unsqueeze0 ((row @ [tok]) @ g))" "length g \<le> n" "0 \<notin> set (butlast g)"
      "length g < n \<longrightarrow> g \<noteq> [] \<and> last g = 0" "\<forall>t \<in> set g. 0 \<le> t \<and> t < int V"
      and trg: "\<forall>j<length g. P (Suc k + j) ((row @ [tok]) @ take j g) (g ! j)"
      unfolding P_def by blast
    have tr: "\<forall>j<length (tok # g). P (k + j) (row @ take j (tok # g)) ((tok # g) ! j)"
    proof (intro allI impI)
      fix j
      assume j: "j < length (tok # g)"
      show "P (k + j) (row @ take j (tok # g)) ((tok # g) ! j)"
      proof (cases j)
        case 0
        then show ?thesis using P0 by simp
      next
        case (Suc j')
        then have "j' < length g" using j by simp
        then have "P (Suc k + j') ((row @ [tok]) @ take j' g) (g ! j')"
          using trg by blast
        then show ?thesis by (simp add: Suc)
      qed
    qed
    have "generate_loop m rng k (unsqueeze0 row) (Suc n) = Inr (unsqueeze0 (row @ tok # g)) \<and>
        length (tok # g) \<le> Suc n \<and> 0 \<notin> set (butlast (tok # g)) \<and>
        (length (tok # g) < Suc n \<longrightarrow> tok # g \<noteq> [] \<and> last (tok # g) = 0) \<and>
        (\<forall>t \<in> set (tok # g). 0 \<le> t \<and> t < int V)"
      using False eq tv g by auto
    then show ?thesis
      using tr unfolding P_def by (intro exI [of _ "tok # g"]) blast
  qed
qed

lemma first_category_valid: "valid_rng first_category"
  by (simp add: valid_rng_def first_category_def)

lemma slice_last_cols_row:
  assumes "0 < L"
  shows "slice_last_cols L (unsqueeze0 r) = unsqueeze0 (drop (length r - L) r)"
    and "length (drop (length r - L) r) = min L (length r)"
  using assms by (auto simp: slice_last_cols_def unsqueeze0_def)

text \<open>
  C3. Let the model be as constructed (vocabulary \<open>V\<close>, embedding dimension \<open>D \<ge> 1\<close>, context
  length \<open>L \<ge> 1\<close>), the random generator draw existing categories only, and the prompt be
  one non-empty sequence \<open>row\<close> of ids of the vocabulary. Then \<open>generate\<close> returns the
  prompt followed by a list \<open>g\<close> of generated tokens, so that the result is no longer than
  the prompt plus \<open>max_new_tokens\<close>; no token of \<open>g\<close> but the last is the sentinel 0; and if
  fewer than \<open>max_new_tokens\<close> tokens were generated, the last one is the sentinel. The
  generated tokens are the sampled ones: token \<open>k\<close> of \<open>g\<close> is what \<open>torch.multinomial\<close>
  draws in round \<open>k\<close> from the softmax of the logits of the last position, in the forward
  pass on the cropped sequence of the prompt and the \<open>k\<close> tokens generated before.
\<close>

theorem generate_bounded_and_stops:
  assumes "wf_llm V D L H N m" "0 < D" "0 < L" "valid_rng rng"
    and "row \<noteq> []" "token_batch V (unsqueeze0 row)"
  shows "\<exists>g. generate m rng (unsqueeze0 row) max_new_tokens = Inr (unsqueeze0 (row @ g)) \<and>
           length (row @ g) \<le> length row + max_new_tokens \<and>
           0 \<notin> set (butlast g) \<and>
           (length g < max_new_tokens \<longrightarrow> g \<noteq> [] \<and> last g = 0) \<and>
           (\<forall>t \<in> set g. 0 \<le> t \<and> t < int V) \<and>
           (\<forall>k<length g. \<exists>lg s.
              TutorialLLM_forward m
                (slice_last_cols (max_length m) (unsqueeze0 (row @ take k g))) None True =
                Inr (Logits3 lg, None) \<and>
              select_last (Logits3 lg) = Inr s \<and>
              multinomial (rng k) (softmax2 s) = Inr (unsqueeze0 [g ! k]))"
proof -
  obtain g where g: "generate_loop m rng 0 (unsqueeze0 row) max_new_tokens = Inr (unsqueeze0 (row @ g))"
    "length g \<le> max_new_tokens" "0 \<notin> set (butlast g)"
    "length g < max_new_tokens \<longrightarrow> g \<noteq> [] \<and> last g = 0" "\<forall>t \<in> set g. 0 \<le> t \<and> t < int V"
    and tr: "\<forall>j<length g. \<exists>lg s.
              TutorialLLM_forward m
                (slice_last_cols (max_length m) (unsqueeze0 (row @ take j g))) None True =
                Inr (Logits3 lg, None) \<and>
              select_last (Logits3 lg) = Inr s \<and>
              multinomial (rng (0 + j)) (softmax2 s) = Inr (unsqueeze0 [g ! j])"
    using generate_loop_row [OF assms(1-5) unsqueeze0_ids [OF assms(6)], of 0 max_new_tokens]
    by blast
  have "generate m rng (unsqueeze0 row) max_new_tokens = Inr (unsqueeze0 (row @ g)) \<and>
        length (row @ g) \<le> length row + max_new_tokens \<and> 0 \<notin> set (butlast g) \<and>
        (length g < max_new_tokens \<longrightarrow> g \<noteq> [] \<and> last g = 0) \<and>
        (\<forall>t \<in> set g. 0 \<le> t \<and> t < int V)"
    using g by (simp add: generate_def)
  then show ?thesis
    using tr by (intro exI [of _ g]) simp
qed

theorem generate_bounded_and_stops_witness:
  "wf_llm 5 8 4 2 1 demo_llm \<and> (0::nat) < 8 \<and> (0::nat) < 4 \<and> valid_rng first_category \<and>
   demo_long_row \<noteq> [] \<and> token_batch 5 (unsqueeze0 demo_long_row) \<and>
   (\<exists>g. generate demo_llm first_category (unsqueeze0 demo_long_row) 3 =
           Inr (unsqueeze0 (demo_long_row @ g)) \<and>
         length (demo_long_row @ g) \<le> length demo_long_row + 3 \<and>
         0 \<notin> set (butlast g) \<and>
         (length g < 3 \<longrightarrow> g \<noteq> [] \<and> last g = 0) \<and>
         (\<forall>t \<in> set g. 0 \<le> t \<and> t < int 5) \<and>
         (\<forall>k<length g. \<exists>lg s.
            TutorialLLM_forward demo_llm
              (slice_last_cols (max_length demo_llm) (unsqueeze0 (demo_long_row @ take k g)))
              None True = Inr (Logits3 lg, None) \<and>
            select_last (Logits3 lg) = Inr s \<and>
            multinomial (first_category k) (softmax2 s) = Inr (unsqueeze0 [g ! k])))"
proof -
  have D: "(0::nat) < 8" and L: "(0::nat) < 4" by simp_all
  have row: "demo_long_row \<noteq> []" "token_batch 5 (unsqueeze0 demo_long_row)"
    by (simp_all add: demo_long_row_def token_batch_def wf2_def unsqueeze0_def)
  show ?thesis
    using generate_bounded_and_stops [OF demo_llm_wf D L first_category_valid row, of 3]
      demo_llm_wf first_category_valid row
    by simp
qed

text \<open>
  C8. Under the same conditions, for a prompt of any length, \<open>generate\<close> returns a result
  and no error, and it runs every round unless it has drawn the sentinel. In round \<open>k\<close> the
  running sequence is the prompt and the \<open>k\<close> tokens generated so far; its crop
  \<open>token_ids[:, -max_length:]\<close> consists of its last \<open>min L (length row + k)\<close> tokens, the
  forward pass of the round is the one on this crop, and the token of the round is drawn
  from its logits. The forward pass on a whole sequence longer than \<open>L\<close> is an IndexError.
\<close>

theorem generate_truncates_context:
  assumes "wf_llm V D L H N m" "0 < D" "0 < L" "valid_rng rng"
    and "row \<noteq> []" "token_batch V (unsqueeze0 row)"
  shows "(\<exists>g. generate m rng (unsqueeze0 row) max_new_tokens = Inr (unsqueeze0 (row @ g)) \<and>
            (length g < max_new_tokens \<longrightarrow> g \<noteq> [] \<and> last g = 0) \<and>
            (\<forall>k<length g. \<exists>lg s.
               slice_last_cols (max_length m) (unsqueeze0 (row @ take k g)) =
                 unsqueeze0 (drop (length row + k - L) (row @ take k g)) \<and>
               length (drop (length row + k - L) (row @ take k g)) = min L (length row + k) \<and>
               TutorialLLM_forward m
                 (unsqueeze0 (drop (length row + k - L) (row @ take k g))) None True =
                 Inr (Logits3 lg, None) \<and>
               select_last (Logits3 lg) = Inr s \<and>
               multinomial (rng k) (softmax2 s) = Inr (unsqueeze0 [g ! k]))) \<and>
         slice_last_cols (max_length m) (unsqueeze0 row) =
           unsqueeze0 (drop (length row - L) row) \<and>
         length (drop (length row - L) row) = min L (length row) \<and>
         (L < length row \<longrightarrow> forward_logits m (unsqueeze0 row) = Inl IndexError)"
proof -
  have ml: "max_length m = L" using assms(1) by (simp add: wf_llm_def)
  obtain g where g: "generate_loop m rng 0 (unsqueeze0 row) max_new_tokens = Inr (unsqueeze0 (row @ g))"
    "length g < max_new_tokens \<longrightarrow> g \<noteq> [] \<and> last g = 0"
    and tr: "\<forall>j<length g. \<exists>lg s.
              TutorialLLM_forward m
                (slice_last_cols (max_length m) (unsqueeze0 (row @ take j g))) None True =
                Inr (Logits3 lg, None) \<and>
              select_last (Logits3 lg) = Inr s \<and>
              multinomial (rng (0 + j)) (softmax2 s) = Inr (unsqueeze0 [g ! j])"
    using generate_loop_row [OF assms(1-5) unsqueeze0_ids [OF assms(6)], of 0 max_new_tokens]
    by blast
  have round: "\<exists>lg s.
      slice_last_cols (max_length m) (unsqueeze0 (row @ take k g)) =
        unsqueeze0 (drop (length row + k - L) (row @ take k g)) \<and>
      length (drop (length row + k - L) (row @ take k g)) = min L (length row + k) \<and>
      TutorialLLM_forward m (unsqueeze0 (drop (length row + k - L) (row @ take k g))) None True =
        Inr (Logits3 lg, None) \<and>
      select_last (Logits3 lg) = Inr s \<and>
      multinomial (rng k) (softmax2 s) = Inr (unsqueeze0 [g ! k])"
    if k: "k < length g" for k
  proof -
    have len: "length (row @ take k g) = length row + k" using k by simp
    have sl: "slice_last_cols (max_length m) (unsqueeze0 (row @ take k g)) =
        unsqueeze0 (drop (length row + k - L) (row @ take k g))"
      and ln: "length (drop (length row + k - L) (row @ take k g)) = min L (length row + k)"
      using slice_last_cols_row [OF assms(3), of "row @ take k g"] unfolding ml len by simp_all
    obtain lg s where
      "TutorialLLM_forward m
         (slice_last_cols (max_length m) (unsqueeze0 (row @ take k g))) None True =
         Inr (Logits3 lg, None)"
      "select_last (Logits3 lg) = Inr s"
      "multinomial (rng k) (softmax2 s) = Inr (unsqueeze0 [g ! k])"
      using tr k by force
    then show ?thesis using sl ln by (intro exI [of _ lg] exI [of _ s]) simp
  qed
  have gen: "generate m rng (unsqueeze0 row) max_new_tokens = Inr (unsqueeze0 (row @ g))"
    using g(1) by (simp add: generate_def)
  have first: "\<exists>g. generate m rng (unsqueeze0 row) max_new_tokens = Inr (unsqueeze0 (row @ g)) \<and>
            (length g < max_new_tokens \<longrightarrow> g \<noteq> [] \<and> last g = 0) \<and>
            (\<forall>k<length g. \<exists>lg s.
               slice_last_cols (max_length m) (unsqueeze0 (row @ take k g)) =
                 unsqueeze0 (drop (length row + k - L) (row @ take k g)) \<and>
               length (drop (length row + k - L) (row @ take k g)) = min L (length row + k) \<and>
               TutorialLLM_forward m
                 (unsqueeze0 (drop (length row + k - L) (row @ take k g))) None True =
                 Inr (Logits3 lg, None) \<and>
               select_last (Logits3 lg) = Inr s \<and>
               multinomial (rng k) (softmax2 s) = Inr (unsqueeze0 [g ! k]))"
    using gen g(2) round by (intro exI [of _ g]) blast
  have "forward_logits m (unsqueeze0 row) = Inl IndexError" if "L < length row"
    using forward_logits_too_long [OF assms(1,6)] that
    by (simp add: unsqueeze0_def)
  then show ?thesis
    using first slice_last_cols_row [OF assms(3), of row] unfolding ml by blast
qed

theorem generate_truncates_context_witness:
  "wf_llm 5 8 4 2 1 demo_llm \<and> (0::nat) < 8 \<and> (0::nat) < 4 \<and> valid_rng first_category \<and>
   demo_long_row \<noteq> [] \<and> token_batch 5 (unsqueeze0 demo_long_row) \<and>
   (\<exists>g. generate demo_llm first_category (unsqueeze0 demo_long_row) 3 =
           Inr (unsqueeze0 (demo_long_row @ g)) \<and>
         (length g < 3 \<longrightarrow> g \<noteq> [] \<and> last g = 0) \<and>
         (\<forall>k<length g. \<exists>lg s.
            slice_last_cols (max_length demo_llm) (unsqueeze0 (demo_long_row @ take k g)) =
              unsqueeze0 (drop (length demo_long_row + k - 4) (demo_long_row @ take k g)) \<and>
            length (drop (length demo_long_row + k - 4) (demo_long_row @ take k g)) =
              min 4 (length demo_long_row + k) \<and>
            TutorialLLM_forward demo_llm
              (unsqueeze0 (drop (length demo_long_row + k - 4) (demo_long_row @ take k g)))
              None True = Inr (Logits3 lg, None) \<and>
            select_last (Logits3 lg) = Inr s \<and>
            multinomial (first_category k) (softmax2 s) = Inr (unsqueeze0 [g ! k]))) \<and>
   slice_last_cols (max_length demo_llm) (unsqueeze0 demo_long_row) =
     unsqueeze0 (drop (length demo_long_row - 4) demo_long_row) \<and>
   length (drop (length demo_long_row - 4) demo_long_row) = min 4 (length demo_long_row) \<and>
   4 < length demo_long_row \<and> forward_logits demo_llm (unsqueeze0 demo_long_row) = Inl IndexError"
proof -
  have D: "(0::nat) < 8" and L: "(0::nat) < 4" by simp_all
  have row: "demo_long_row \<noteq> []" "token_batch 5 (unsqueeze0 demo_long_row)"
    by (simp_all add: demo_long_row_def token_batch_def wf2_def unsqueeze0_def)
  have long: "4 < length demo_long_row" by (simp add: demo_long_row_def)
  show ?thesis
    using generate_truncates_context [OF demo_llm_wf D L first_category_valid row, of 3]
      demo_llm_wf first_category_valid row long
    by simp
qed

text \<open>
  C10. For a model as constructed and a batch of more than one non-empty sequence of ids
  of the vocabulary, \<open>generate\<close> with at least one round to run fails in the first round
  with the error of \<open>idx_next.item()\<close>: the forward pass, the sampling and the
  concatenation succeed, and the tensor of sampled tokens has more than one element.
\<close>

theorem generate_needs_single_sequence:
  assumes "wf_llm V D L H N m" "0 < D" "0 < L"
    and "token_batch V ids" "1 < nrows ids" "0 < ncols ids" "0 < max_new_tokens"
  shows "generate m rng ids max_new_tokens = Inl NotScalar"
proof -
  obtain n where n: "max_new_tokens = Suc n" using assms(7) by (cases max_new_tokens) auto
  have B: "0 < nrows ids" using assms(5) by simp
  obtain idx where idx: "shaped2 (nrows ids) 1 idx" "length (concat (cells idx)) = nrows ids"
    and step: "generate_loop m rng 0 ids (Suc n) =
             bindE (cat_cols ids idx) (\<lambda>token_ids.
             bindE (item idx) (\<lambda>v.
             if v = 0 then Inr token_ids else generate_loop m rng (Suc 0) token_ids n))"
    using generate_step [OF assms(1-4) B assms(6), of rng 0 n] by blast
  have "\<exists>c. cat_cols ids idx = Inr c"
    using idx(1) by (simp add: cat_cols_def shaped2_def)
  moreover have "item idx = Inl NotScalar"
  proof -
    have "1 < length (concat (cells idx))" using idx(2) assms(5) by simp
    then show ?thesis
      by (cases "concat (cells idx)" rule: list.exhaust [case_names Nil Cons])
        (auto simp: item_def split: list.splits)
  qed
  ultimately show ?thesis
    by (auto simp: generate_def n step simp del: generate_loop.simps)
qed

lemma demo_pair_batch: "token_batch 5 demo_pair" "nrows demo_pair = 2" "ncols demo_pair = 1"
  by (simp_all add: token_batch_def wf2_def demo_pair_def)

theorem generate_needs_single_sequence_witness:
  "wf_llm 5 8 4 2 1 demo_llm \<and> (0::nat) < 8 \<and> (0::nat) < 4 \<and> token_batch 5 demo_pair \<and>
   1 < nrows demo_pair \<and> 0 < ncols demo_pair \<and> (0::nat) < 3 \<and>
   generate demo_llm first_category demo_pair 3 = Inl NotScalar"
proof -
  have D: "(0::nat) < 8" and L: "(0::nat) < 4" and n: "(0::nat) < 3" by simp_all
  have B: "1 < nrows demo_pair" and T: "0 < ncols demo_pair"
    by (simp_all add: demo_pair_batch)
  show ?thesis
    using generate_needs_single_sequence [OF demo_llm_wf D L demo_pair_batch(1) B T n,
        of first_category]
      demo_llm_wf demo_pair_batch(1) B T
    by simp
qed

end
